theory Spec2Isabelle
  imports Complex_Main
begin

section \<open>JavaScript values and built-ins used by the call-scheduling core\<close>

text \<open>
  Instants are what \<open>Date.getTime()\<close> returns: milliseconds since the epoch. A \<open>Date\<close>
  object built from a string that does not parse is an Invalid Date; calling
  \<open>toISOString\<close> on it throws a RangeError.
\<close>

type_synonym instant = int

datatype Date = Date instant | InvalidDate

text \<open>
  Errors thrown by the code. \<open>Error m\<close> is \<open>new Error(m)\<close>; \<open>StatusError m n\<close> is
  \<open>new Error(m + n)\<close> for the messages that end in an HTTP status; \<open>Thrown m\<close> is whatever
  \<open>fetch\<close> rejected with; \<open>RangeError\<close> is the one raised by \<open>toISOString\<close>.
\<close>

datatype error = Error string | StatusError string nat | Thrown string | RangeError

text \<open>
  A parsed JSON value. A property that is absent from an object reads as \<open>undefined\<close>,
  which is \<open>None\<close> at type \<open>json option\<close>; \<open>JObj\<close> lists the own properties of the object.
\<close>

datatype json =
    JNull
  | JBool bool
  | JNum real
  | JStr string
  | JArr "json list"
  | JObj "(string \<times> json) list"

text \<open>
  The built-ins whose results depend on the floating-point printer, on the date parser or
  on the Unicode tables of the JavaScript engine are parameters of the model:
  \<open>String(n)\<close> for a number, \<open>n.toFixed(1)\<close>, \<open>new Date(s)\<close>, \<open>s.toUpperCase()\<close> and
  \<open>s.trim()\<close>.
\<close>

record js_runtime =
  numberToString :: "real \<Rightarrow> string"
  toFixed1 :: "real \<Rightarrow> string"
  newDate :: "string \<Rightarrow> Date"
  stringToUpperCase :: "string \<Rightarrow> string"
  stringTrim :: "string \<Rightarrow> string"

text \<open>Property access \<open>obj.k\<close> on a value typed \<open>Record<string, unknown>\<close>. Arrays have none
  of the properties the code asks for (role, speaker, message, content, text, time, and
  \<open>entries\<close> is a method, not an array).\<close>

fun getProp :: "json \<Rightarrow> string \<Rightarrow> json option" where
  "getProp (JObj fs) k = map_of fs k"
| "getProp _ k = None"

text \<open>JavaScript truthiness, as tested by \<open>!x\<close>, \<open>if (x)\<close> and \<open>Boolean(x)\<close>.\<close>

fun truthy :: "json option \<Rightarrow> bool" where
  "truthy None = False"
| "truthy (Some JNull) = False"
| "truthy (Some (JBool b)) = b"
| "truthy (Some (JNum x)) = (x \<noteq> 0)"
| "truthy (Some (JStr s)) = (s \<noteq> [])"
| "truthy (Some (JArr xs)) = True"
| "truthy (Some (JObj fs)) = True"

text \<open>\<open>typeof v === "string"\<close> and \<open>typeof v === "number"\<close>, returning the value.\<close>

fun asString :: "json option \<Rightarrow> string option" where
  "asString (Some (JStr s)) = Some s"
| "asString _ = None"

fun asNumber :: "json option \<Rightarrow> real option" where
  "asNumber (Some (JNum x)) = Some x"
| "asNumber _ = None"

text \<open>The nullish coalescing operator \<open>a ?? b\<close> and, for strings, \<open>a || b\<close>.\<close>

fun orElse :: "'a option \<Rightarrow> 'a option \<Rightarrow> 'a option" where
  "orElse (Some a) b = Some a"
| "orElse None b = b"

definition orString :: "string \<Rightarrow> string \<Rightarrow> string" where
  "orString a b = (if a \<noteq> [] then a else b)"

text \<open>\<open>a ?? b\<close> where \<open>a\<close> is a JSON value: \<open>null\<close> is nullish as \<open>undefined\<close> is. (At the
  types \<open>string option\<close> and \<open>real option\<close>, \<open>None\<close> stands for both.)\<close>

fun nullish :: "json option \<Rightarrow> bool" where
  "nullish None = True"
| "nullish (Some JNull) = True"
| "nullish (Some v) = False"

definition orElseJson :: "json option \<Rightarrow> json option \<Rightarrow> json option" where
  "orElseJson a b = (if nullish a then b else a)"

text \<open>
  \<open>toLowerCase\<close> on the ASCII letters; every other character is kept. (It is used by the
  status lookup only: the words the lookup compares with are ASCII, and no character
  outside ASCII lower-cases to one of their letters.)
\<close>

definition lowerChar :: "char \<Rightarrow> char" where
  "lowerChar c =
     (case map_of (zip ''ABCDEFGHIJKLMNOPQRSTUVWXYZ'' ''abcdefghijklmnopqrstuvwxyz'') c of
        Some d \<Rightarrow> d | None \<Rightarrow> c)"

definition toLowerCase :: "string \<Rightarrow> string" where
  "toLowerCase s = map lowerChar s"

text \<open>
  Upper-casing and trimming of ASCII strings. They are not what the program calls (that
  is \<open>stringToUpperCase\<close> and \<open>stringTrim\<close> of the runtime): \<open>asciiUpperCase\<close> serves to state
  that the status lookup ignores the case of the letters, and both serve as the runtime
  of the examples, whose strings are ASCII.
\<close>

definition upperChar :: "char \<Rightarrow> char" where
  "upperChar c =
     (case map_of (zip ''abcdefghijklmnopqrstuvwxyz'' ''ABCDEFGHIJKLMNOPQRSTUVWXYZ'') c of
        Some d \<Rightarrow> d | None \<Rightarrow> c)"

definition asciiUpperCase :: "string \<Rightarrow> string" where
  "asciiUpperCase s = map upperChar s"

definition isWhiteSpace :: "char \<Rightarrow> bool" where
  "isWhiteSpace c = (c \<in> set [CHR 0x09, CHR 0x0A, CHR 0x0B, CHR 0x0C, CHR 0x0D, CHR '' ''])"

definition asciiTrim :: "string \<Rightarrow> string" where
  "asciiTrim s = rev (dropWhile isWhiteSpace (rev (dropWhile isWhiteSpace s)))"

text \<open>\<open>Array.prototype.join\<close>.\<close>

fun join :: "string \<Rightarrow> string list \<Rightarrow> string" where
  "join sep [] = []"
| "join sep [x] = x"
| "join sep (x # y # ys) = x @ sep @ join sep (y # ys)"

section \<open>Domain types (lib/types.ts)\<close>

datatype VAPICallStatus = Pending | InProgress | Completed | Failed

record VAPICallTranscriptEntry =
  role :: string
  message :: string
  time :: "real option"

record VAPICallArtifacts =
  recording :: "string option"
  logUrl :: "string option"
  transcriptUrl :: "string option"

record VAPICallAnalysis =
  summary :: "string option"
  structuredData :: "json option"
  successEvaluation :: "json option"

record VAPICall =
  callId :: string
  patientId :: string
  promptId :: string
  scheduleId :: "string option"
  phoneNumber :: string
  providerCallId :: "string option"
  status :: VAPICallStatus
  startedAt :: "Date option"
  completedAt :: "Date option"
  duration :: "real option"
  transcript :: "string option"
  transcriptEntries :: "VAPICallTranscriptEntry list option"
  artifacts :: "VAPICallArtifacts option"
  analysis :: "VAPICallAnalysis option"
  createdAt :: Date

section \<open>Status lookup and transcript normalisation (services/vapiService.ts)\<close>

text \<open>\<open>mapApiStatusToLocal\<close>: a switch on \<open>status?.toLowerCase()\<close>.\<close>

definition mapApiStatusToLocal :: "string option \<Rightarrow> VAPICallStatus" where
  "mapApiStatusToLocal st =
     (case map_option toLowerCase st of
        None \<Rightarrow> Pending
      | Some s \<Rightarrow>
          if s = ''completed'' \<or> s = ''finished'' then Completed
          else if s = ''failed'' \<or> s = ''error'' then Failed
          else if s = ''in-progress'' \<or> s = ''running'' \<or> s = ''live'' then InProgress
          else Pending)"

text \<open>\<open>formatTranscript\<close>: one line per entry, \<open>[<time>s] ROLE: message\<close>, joined by newlines;
  \<open>undefined\<close> for no entries.\<close>

definition formatEntry :: "js_runtime \<Rightarrow> VAPICallTranscriptEntry \<Rightarrow> string" where
  "formatEntry rt entry =
     (let timestamp = (case time entry of Some t \<Rightarrow> ''['' @ toFixed1 rt t @ ''s] '' | None \<Rightarrow> '''');
          speaker = (if role entry \<noteq> [] then stringToUpperCase rt (role entry) else ''SPEAKER'')
      in timestamp @ speaker @ '': '' @ message entry)"

definition formatTranscript :: "js_runtime \<Rightarrow> VAPICallTranscriptEntry list option \<Rightarrow> string option" where
  "formatTranscript rt entries =
     (case entries of
        None \<Rightarrow> None
      | Some es \<Rightarrow> if es = [] then None else Some (join [CHR 0x0A] (map (formatEntry rt) es)))"

text \<open>\<open>mergeAnalysis\<close> and \<open>mapApiAnalysis\<close>.\<close>

record VapiCallAnalysisResponse =
  r_summary :: "string option"
  r_structuredData :: "json option"
  r_successEvaluation :: "json option"

definition mergeAnalysis :: "VAPICallAnalysis option \<Rightarrow> VAPICallAnalysis option \<Rightarrow> VAPICallAnalysis option" where
  "mergeAnalysis existing incoming =
     (if existing = None \<and> incoming = None then None
      else Some \<lparr> summary = orElse (Option.bind incoming summary) (Option.bind existing summary),
                  structuredData =
                    orElseJson (Option.bind incoming structuredData)
                               (Option.bind existing structuredData),
                  successEvaluation =
                    orElseJson (Option.bind incoming successEvaluation)
                               (Option.bind existing successEvaluation) \<rparr>)"

definition mapApiAnalysis :: "VapiCallAnalysisResponse option \<Rightarrow> VAPICallAnalysis option" where
  "mapApiAnalysis a =
     (case a of
        None \<Rightarrow> None
      | Some r \<Rightarrow> Some \<lparr> summary = r_summary r, structuredData = r_structuredData r,
                          successEvaluation = r_successEvaluation r \<rparr>)"

text \<open>\<open>extractTextFromAny\<close>: the text of a value of unknown shape. The recursion goes into
  array items and into the \<open>content\<close> and \<open>message\<close> properties, which are smaller values.\<close>

lemma size_map_of_json: "map_of fs k = Some v \<Longrightarrow> size v < size (JObj fs)"
  by (induction fs) (auto split: if_splits)

function extractTextFromAny :: "js_runtime \<Rightarrow> json option \<Rightarrow> string" where
  "extractTextFromAny rt None = []"
| "extractTextFromAny rt (Some JNull) = []"
| "extractTextFromAny rt (Some (JStr s)) = s"
| "extractTextFromAny rt (Some (JNum x)) = numberToString rt x"
| "extractTextFromAny rt (Some (JBool b)) = (if b then ''true'' else ''false'')"
| "extractTextFromAny rt (Some (JArr items)) =
     stringTrim rt (join '' '' (filter (\<lambda>s. s \<noteq> []) (map (\<lambda>item. extractTextFromAny rt (Some item)) items)))"
| "extractTextFromAny rt (Some (JObj fs)) =
     (case asString (map_of fs ''text'') of
        Some s \<Rightarrow> s
      | None \<Rightarrow>
     (case asString (map_of fs ''message'') of
        Some s \<Rightarrow> s
      | None \<Rightarrow>
     (case asString (map_of fs ''content'') of
        Some s \<Rightarrow> s
      | None \<Rightarrow>
          if truthy (map_of fs ''content'') then extractTextFromAny rt (map_of fs ''content'')
          else if truthy (map_of fs ''message'') then extractTextFromAny rt (map_of fs ''message'')
          else [])))"
  by pat_completeness auto
termination
proof (relation "measure (\<lambda>(rt, v). case v of None \<Rightarrow> 0 | Some j \<Rightarrow> size j)", goal_cases)
  case 1
  show ?case by simp
next
  case (2 rt items item)
  then show ?case by (simp add: size_list_estimation' less_Suc_eq_le)
next
  case (3 rt fs)
  then show ?case by (cases "map_of fs ''content''") (auto dest: size_map_of_json)
next
  case (4 rt fs)
  then show ?case by (cases "map_of fs ''message''") (auto dest: size_map_of_json)
qed

text \<open>\<open>toTranscriptEntry\<close>: \<open>null\<close> is \<open>None\<close>. \<open>entryRole\<close> and \<open>entryMessage\<close> are its
  local constants \<open>role\<close> and \<open>message\<close>.\<close>

definition entryRole :: "json \<Rightarrow> string" where
  "entryRole obj =
     (case asString (getProp obj ''role'') of
        Some r \<Rightarrow> r
      | None \<Rightarrow> (case asString (getProp obj ''speaker'') of Some r \<Rightarrow> r | None \<Rightarrow> ''speaker''))"

definition entryMessage :: "js_runtime \<Rightarrow> json \<Rightarrow> string" where
  "entryMessage rt obj =
     (case asString (getProp obj ''message'') of
        Some m \<Rightarrow> m
      | None \<Rightarrow>
     (case asString (getProp obj ''content'') of
        Some m \<Rightarrow> m
      | None \<Rightarrow>
     (case asString (getProp obj ''text'') of
        Some m \<Rightarrow> m
      | None \<Rightarrow>
          orString (extractTextFromAny rt (getProp obj ''message''))
            (orString (extractTextFromAny rt (getProp obj ''content''))
               (extractTextFromAny rt (getProp obj ''text''))))))"

definition toTranscriptEntry :: "js_runtime \<Rightarrow> json option \<Rightarrow> VAPICallTranscriptEntry option" where
  "toTranscriptEntry rt entry =
     (if \<not> truthy entry then None
      else case entry of
        None \<Rightarrow> None
      | Some (JStr s) \<Rightarrow> Some \<lparr> role = ''speaker'', message = s, time = None \<rparr>
      | Some (JNum x) \<Rightarrow> None
      | Some (JBool b) \<Rightarrow> None
      | Some obj \<Rightarrow>
          if entryMessage rt obj = [] then None
          else Some \<lparr> role = entryRole obj, message = entryMessage rt obj,
                       time = asNumber (getProp obj ''time'') \<rparr>)"

text \<open>\<open>normalizeTranscriptEntries\<close>: the first candidate that is an array with at least one
  entry that converts; \<open>undefined\<close> is \<open>None\<close>. The loop over the candidates is
  \<open>firstEntries\<close>.\<close>

definition entriesOf :: "js_runtime \<Rightarrow> json list \<Rightarrow> VAPICallTranscriptEntry list" where
  "entriesOf rt candidate = List.map_filter (\<lambda>entry. toTranscriptEntry rt (Some entry)) candidate"

fun firstEntries :: "js_runtime \<Rightarrow> json option list \<Rightarrow> VAPICallTranscriptEntry list option" where
  "firstEntries rt [] = None"
| "firstEntries rt (candidate # rest) =
     (case candidate of
        Some (JArr xs) \<Rightarrow>
          (let entries = entriesOf rt xs
           in if entries \<noteq> [] then Some entries else firstEntries rt rest)
      | _ \<Rightarrow> firstEntries rt rest)"

definition normalizeTranscriptEntries :: "js_runtime \<Rightarrow> json option \<Rightarrow> VAPICallTranscriptEntry list option" where
  "normalizeTranscriptEntries rt raw =
     (if \<not> truthy raw then None
      else
        let candidates =
              [raw] @
              (case raw of
                 Some (JObj fs) \<Rightarrow>
                   [getProp (JObj fs) ''entries'', getProp (JObj fs) ''messages'',
                    getProp (JObj fs) ''transcript'', getProp (JObj fs) ''items'']
               | Some (JArr xs) \<Rightarrow> [None, None, None, None]
               | _ \<Rightarrow> [])
        in firstEntries rt candidates)"

record artifact_response =
  a_recording :: "string option"
  a_logUrl :: "string option"
  a_transcript :: "json option"
  a_transcriptUrl :: "string option"
  a_messages :: "json option"
  a_messagesOpenAIFormatted :: "json option"

record transcript_info =
  entries :: "VAPICallTranscriptEntry list option"
  formatted :: "string option"

definition extractTranscriptFromArtifact :: "js_runtime \<Rightarrow> artifact_response option \<Rightarrow> transcript_info" where
  "extractTranscriptFromArtifact rt artifact =
     (case artifact of
        None \<Rightarrow> \<lparr> entries = None, formatted = None \<rparr>
      | Some a \<Rightarrow>
          (let es = orElse (normalizeTranscriptEntries rt (a_transcript a))
                      (orElse (normalizeTranscriptEntries rt (a_messages a))
                              (normalizeTranscriptEntries rt (a_messagesOpenAIFormatted a)))
           in \<lparr> entries = es, formatted = formatTranscript rt es \<rparr>))"

section \<open>Phone numbers (components/VAPIPage.tsx)\<close>

definition isDigit :: "char \<Rightarrow> bool" where
  "isDigit c = (c \<in> set ''0123456789'')"

text \<open>\<open>formatPhoneToE164\<close>; \<open>phone.replace(/\D/g, "")\<close> keeps the digits.\<close>

definition startsWith :: "string \<Rightarrow> string \<Rightarrow> bool" where
  "startsWith s p = (take (length p) s = p)"

definition formatPhoneToE164 :: "string \<Rightarrow> string" where
  "formatPhoneToE164 phone =
     (let digits = filter isDigit phone
      in if length digits = 10 then ''+1'' @ digits
         else if length digits = 11 \<and> startsWith phone ''+1'' then phone
         else if length digits = 11 \<and> startsWith digits ''1'' then ''+'' @ digits
         else ''+1'' @ digits)"

text \<open>The E.164 format of a number as dialled: a plus sign, then one to fifteen digits, the
  first of them not zero.\<close>

definition isE164 :: "string \<Rightarrow> bool" where
  "isE164 s =
     (case s of
        [] \<Rightarrow> False
      | c # ds \<Rightarrow> c = CHR ''+'' \<and> ds \<noteq> [] \<and> length ds \<le> 15 \<and> list_all isDigit ds \<and> hd ds \<noteq> CHR ''0'')"

section \<open>Rows, payloads and the stores (lib/repositories/vapi.ts)\<close>

text \<open>
  The rows of \<open>vapi_calls\<close>. Timestamp columns hold the instant that the ISO string written
  by \<open>toISOString\<close> denotes; the JSON columns hold the record they were written from (a
  property whose value is \<open>undefined\<close> is not written, and reads back as \<open>undefined\<close>).
  The \<open>duration\<close> column holds the number it was given.
\<close>

record CallRow =
  c_id :: string
  c_patient_id :: string
  c_prompt_id :: string
  c_schedule_id :: "string option"
  c_phone_number :: string
  c_provider_call_id :: "string option"
  c_status :: VAPICallStatus
  c_started_at :: "instant option"
  c_completed_at :: "instant option"
  c_duration :: "real option"
  c_transcript :: "string option"
  c_transcript_entries :: "VAPICallTranscriptEntry list option"
  c_artifacts :: "VAPICallArtifacts option"
  c_analysis :: "VAPICallAnalysis option"
  c_created_at :: instant

definition mapCall :: "CallRow \<Rightarrow> VAPICall" where
  "mapCall row =
     \<lparr> callId = c_id row,
       patientId = c_patient_id row,
       promptId = c_prompt_id row,
       scheduleId = c_schedule_id row,
       phoneNumber = c_phone_number row,
       providerCallId = c_provider_call_id row,
       status = c_status row,
       startedAt = map_option Date (c_started_at row),
       completedAt = map_option Date (c_completed_at row),
       duration = c_duration row,
       transcript = c_transcript row,
       transcriptEntries = c_transcript_entries row,
       artifacts = c_artifacts row,
       analysis = c_analysis row,
       createdAt = Date (c_created_at row) \<rparr>"

text \<open>
  \<open>CreateCallRecordPayload\<close> and \<open>UpdateCallRecordPayload\<close>. For the required fields
  \<open>None\<close> is "absent or undefined"; for the optional ones the outer \<open>None\<close> is
  "the key is not in the payload" and \<open>Some None\<close> is "the key is there, the value is
  undefined".
\<close>

record CallRecordPayload =
  p_patientId :: "string option"
  p_promptId :: "string option"
  p_scheduleId :: "string option option"
  p_phoneNumber :: "string option"
  p_providerCallId :: "string option option"
  p_status :: "VAPICallStatus option"
  p_startedAt :: "Date option option"
  p_completedAt :: "Date option option"
  p_duration :: "real option option"
  p_transcript :: "string option option"
  p_transcriptEntries :: "VAPICallTranscriptEntry list option option"
  p_artifacts :: "VAPICallArtifacts option option"
  p_analysis :: "VAPICallAnalysis option option"

text \<open>The body sent to the store: a column is set when its key is present; \<open>Some None\<close>
  sets it to \<open>null\<close>.\<close>

record CallBody =
  b_patient_id :: "string option"
  b_prompt_id :: "string option"
  b_schedule_id :: "string option option"
  b_phone_number :: "string option"
  b_provider_call_id :: "string option option"
  b_status :: "VAPICallStatus option"
  b_started_at :: "instant option option"
  b_completed_at :: "instant option option"
  b_duration :: "real option option"
  b_transcript :: "string option option"
  b_transcript_entries :: "VAPICallTranscriptEntry list option option"
  b_artifacts :: "VAPICallArtifacts option option"
  b_analysis :: "VAPICallAnalysis option option"

definition toISOString :: "Date \<Rightarrow> error + instant" where
  "toISOString d = (case d of Date t \<Rightarrow> Inr t | InvalidDate \<Rightarrow> Inl RangeError)"

text \<open>\<open>payload.startedAt ? payload.startedAt.toISOString() : null\<close>, when the key is present.\<close>

definition dateColumn :: "Date option option \<Rightarrow> error + instant option option" where
  "dateColumn v =
     (case v of
        None \<Rightarrow> Inr None
      | Some None \<Rightarrow> Inr (Some None)
      | Some (Some d) \<Rightarrow> (case toISOString d of Inl e \<Rightarrow> Inl e | Inr t \<Rightarrow> Inr (Some (Some t))))"

definition buildCallPayload :: "CallRecordPayload \<Rightarrow> error + CallBody" where
  "buildCallPayload payload =
     (case dateColumn (p_startedAt payload) of
        Inl e \<Rightarrow> Inl e
      | Inr started \<Rightarrow>
     (case dateColumn (p_completedAt payload) of
        Inl e \<Rightarrow> Inl e
      | Inr completed \<Rightarrow>
          Inr \<lparr> b_patient_id = p_patientId payload,
                b_prompt_id = p_promptId payload,
                b_schedule_id = p_scheduleId payload,
                b_phone_number = p_phoneNumber payload,
                b_provider_call_id = p_providerCallId payload,
                b_status = p_status payload,
                b_started_at = started,
                b_completed_at = completed,
                b_duration = p_duration payload,
                b_transcript = p_transcript payload,
                b_transcript_entries = p_transcriptEntries payload,
                b_artifacts = p_artifacts payload,
                b_analysis = p_analysis payload \<rparr>))"

text \<open>The rows of \<open>vapi_call_schedules\<close>. The column \<open>last_executed_at\<close> is the one
  \<open>updateSchedule\<close> writes; \<open>mapSchedule\<close> does not read it.\<close>

datatype ScheduleType = OneTime | Recurring | Now

datatype RecurrenceType = NoRecurrence | Daily | Weekly | Monthly

record ScheduleRow =
  s_id :: string
  s_patient_id :: string
  s_prompt_id :: string
  s_type :: ScheduleType
  s_scheduled_time :: "instant option"
  s_recurrence_type :: "RecurrenceType option"
  s_recurrence_end_date :: "instant option"
  s_day_of_week :: "int option"
  s_day_of_month :: "int option"
  s_created_at :: instant
  s_is_active :: bool
  s_last_executed_at :: "instant option"

record VAPICallSchedule =
  schedId :: string
  schedPatientId :: string
  schedPromptId :: string
  schedType :: ScheduleType
  scheduledTime :: "Date option"
  recurrenceType :: "RecurrenceType option"
  recurrenceEndDate :: "Date option"
  dayOfWeek :: "int option"
  dayOfMonth :: "int option"
  schedCreatedAt :: Date
  isActive :: bool

definition mapSchedule :: "ScheduleRow \<Rightarrow> VAPICallSchedule" where
  "mapSchedule row =
     \<lparr> schedId = s_id row,
       schedPatientId = s_patient_id row,
       schedPromptId = s_prompt_id row,
       schedType = s_type row,
       scheduledTime = map_option Date (s_scheduled_time row),
       recurrenceType = s_recurrence_type row,
       recurrenceEndDate = map_option Date (s_recurrence_end_date row),
       dayOfWeek = s_day_of_week row,
       dayOfMonth = s_day_of_month row,
       schedCreatedAt = Date (s_created_at row),
       isActive = s_is_active row \<rparr>"

record Patient =
  patId :: string
  firstName :: string
  lastName :: string
  phone :: "string option"

record VAPIPrompt =
  prId :: string
  prName :: string
  prPrompt :: string

text \<open>The requests the service sends to the voice-call provider, and what \<open>fetch\<close> gives
  back: a 2xx response with its parsed body, another status with the \<open>message\<close> of its
  error body (if any), or a rejection.\<close>

record CallRequest =
  customerNumber :: string
  modelProvider :: string
  modelName :: string
  systemContent :: string

datatype request = GetAssistant | PostCall CallRequest | GetCall string

datatype 'a response = Ok 'a | NotOk nat "string option" | Rejected string

record AssistantModel =
  am_provider :: "string option"
  am_model :: "string option"

record VAPIAssistantResponse =
  as_id :: string
  as_model :: "AssistantModel option"

record VAPICallResponse =
  resp_id :: string
  resp_status :: string

record VapiCallDetailsResponse =
  d_id :: string
  d_status :: string
  d_startedAt :: "string option"
  d_completedAt :: "string option"
  d_duration :: "real option"
  d_artifact :: "artifact_response option"
  d_analysis :: "VapiCallAnalysisResponse option"

text \<open>The collaborators: the provider's answers, and the prompt renderer
  \<open>replacePromptVariables\<close> (lib/prompts.ts), which the core only calls.\<close>

record provider =
  assistantResponse :: "VAPIAssistantResponse response"
  postCallResponse :: "CallRequest \<Rightarrow> VAPICallResponse response"
  getCallResponse :: "string \<Rightarrow> VapiCallDetailsResponse response"
  replacePromptVariables :: "string \<Rightarrow> Patient \<Rightarrow> string"

text \<open>The state the core reads and writes: the two tables, the patients and prompts it looks
  up, the requests sent so far, the clock (\<open>new Date()\<close>), and the identifiers the store
  will hand out (\<open>gen_random_uuid()\<close>).\<close>

record world =
  vapi_calls :: "CallRow list"
  vapi_call_schedules :: "ScheduleRow list"
  patients :: "string \<Rightarrow> Patient option"
  vapi_prompts :: "string \<Rightarrow> VAPIPrompt option"
  requests :: "request list"
  now :: instant
  gen_random_uuid :: "nat \<Rightarrow> string"
  uuid_next :: nat

subsection \<open>The repository\<close>

text \<open>\<open>getCallById\<close>: \<open>select * where id = ?\<close> with \<open>maybeSingle\<close>, which fails when more than
  one row matches.\<close>

definition rowsWithId :: "string \<Rightarrow> CallRow list \<Rightarrow> CallRow list" where
  "rowsWithId cid rows = filter (\<lambda>r. c_id r = cid) rows"

definition repo_getCallById :: "string \<Rightarrow> world \<Rightarrow> error + VAPICall option" where
  "repo_getCallById cid w =
     (case rowsWithId cid (vapi_calls w) of
        [] \<Rightarrow> Inr None
      | [r] \<Rightarrow> Inr (Some (mapCall r))
      | _ \<Rightarrow> Inl (Error ''JSON object requested, multiple (or no) rows returned''))"

text \<open>\<open>createCall\<close> of the repository: \<open>insert(...).select("*").single()\<close>. The store fills
  \<open>id\<close> and \<open>created_at\<close>, sets a column that has no key to \<open>null\<close>, and rejects a row
  without one of the four \<open>not null\<close> columns.\<close>

definition nullable :: "'a option option \<Rightarrow> 'a option" where
  "nullable v = (case v of None \<Rightarrow> None | Some x \<Rightarrow> x)"

definition insertCall :: "CallBody \<Rightarrow> world \<Rightarrow> (error + CallRow) \<times> world" where
  "insertCall body w =
     (case (b_patient_id body, b_prompt_id body, b_phone_number body, b_status body) of
        (Some pid, Some prid, Some ph, Some st) \<Rightarrow>
          (let row = \<lparr> c_id = gen_random_uuid w (uuid_next w),
                        c_patient_id = pid,
                        c_prompt_id = prid,
                        c_schedule_id = nullable (b_schedule_id body),
                        c_phone_number = ph,
                        c_provider_call_id = nullable (b_provider_call_id body),
                        c_status = st,
                        c_started_at = nullable (b_started_at body),
                        c_completed_at = nullable (b_completed_at body),
                        c_duration = nullable (b_duration body),
                        c_transcript = nullable (b_transcript body),
                        c_transcript_entries = nullable (b_transcript_entries body),
                        c_artifacts = nullable (b_artifacts body),
                        c_analysis = nullable (b_analysis body),
                        c_created_at = now w \<rparr>
           in (Inr row, w\<lparr> vapi_calls := vapi_calls w @ [row], uuid_next := Suc (uuid_next w) \<rparr>))
      | _ \<Rightarrow> (Inl (Error ''null value violates not-null constraint''), w))"

definition repo_createCall :: "CallRecordPayload \<Rightarrow> world \<Rightarrow> (error + VAPICall) \<times> world" where
  "repo_createCall payload w =
     (case buildCallPayload payload of
        Inl e \<Rightarrow> (Inl e, w)
      | Inr body \<Rightarrow>
          (case insertCall body w of
             (Inl e, w') \<Rightarrow> (Inl e, w')
           | (Inr row, w') \<Rightarrow> (Inr (mapCall row), w')))"

text \<open>\<open>updateCall\<close> of the repository: \<open>update(patch).eq("id", id).select("*").single()\<close>.\<close>

definition setColumn :: "'a option \<Rightarrow> 'a \<Rightarrow> 'a" where
  "setColumn v old = (case v of None \<Rightarrow> old | Some x \<Rightarrow> x)"

definition patchCall :: "CallBody \<Rightarrow> CallRow \<Rightarrow> CallRow" where
  "patchCall body row =
     \<lparr> c_id = c_id row,
       c_patient_id = setColumn (b_patient_id body) (c_patient_id row),
       c_prompt_id = setColumn (b_prompt_id body) (c_prompt_id row),
       c_schedule_id = setColumn (b_schedule_id body) (c_schedule_id row),
       c_phone_number = setColumn (b_phone_number body) (c_phone_number row),
       c_provider_call_id = setColumn (b_provider_call_id body) (c_provider_call_id row),
       c_status = setColumn (b_status body) (c_status row),
       c_started_at = setColumn (b_started_at body) (c_started_at row),
       c_completed_at = setColumn (b_completed_at body) (c_completed_at row),
       c_duration = setColumn (b_duration body) (c_duration row),
       c_transcript = setColumn (b_transcript body) (c_transcript row),
       c_transcript_entries = setColumn (b_transcript_entries body) (c_transcript_entries row),
       c_artifacts = setColumn (b_artifacts body) (c_artifacts row),
       c_analysis = setColumn (b_analysis body) (c_analysis row),
       c_created_at = c_created_at row \<rparr>"

definition repo_updateCall :: "string \<Rightarrow> CallRecordPayload \<Rightarrow> world \<Rightarrow> (error + VAPICall) \<times> world" where
  "repo_updateCall cid updates w =
     (case buildCallPayload updates of
        Inl e \<Rightarrow> (Inl e, w)
      | Inr patch \<Rightarrow>
          (case rowsWithId cid (vapi_calls w) of
             [r] \<Rightarrow>
               (Inr (mapCall (patchCall patch r)),
                w\<lparr> vapi_calls :=
                     map (\<lambda>row. if c_id row = cid then patchCall patch row else row) (vapi_calls w) \<rparr>)
           | _ \<Rightarrow> (Inl (Error ''JSON object requested, multiple (or no) rows returned''), w)))"

text \<open>\<open>listDueSchedules\<close>: the rows with \<open>is_active = true\<close>, \<open>type = 'one-time'\<close> and
  \<open>scheduled_time <= now\<close> (a comparison with \<open>null\<close> selects nothing), mapped.\<close>

definition dueFilter :: "instant \<Rightarrow> ScheduleRow \<Rightarrow> bool" where
  "dueFilter t row =
     (s_is_active row = True \<and> s_type row = OneTime \<and>
      (case s_scheduled_time row of None \<Rightarrow> False | Some st \<Rightarrow> st \<le> t))"

definition listDueSchedules :: "world \<Rightarrow> VAPICallSchedule list" where
  "listDueSchedules w = map mapSchedule (filter (dueFilter (now w)) (vapi_call_schedules w))"

text \<open>\<open>deactivateSchedule\<close> and \<open>updateSchedule\<close>: \<open>update(...).eq("id", id).select("*").single()\<close>.
  \<open>updateSchedule\<close> patches \<open>scheduled_time\<close>, \<open>recurrence_end_date\<close> and \<open>last_executed_at\<close>, and
  no other column.\<close>

definition schedulesWithId :: "string \<Rightarrow> ScheduleRow list \<Rightarrow> ScheduleRow list" where
  "schedulesWithId sid rows = filter (\<lambda>r. s_id r = sid) rows"

definition updateScheduleRows ::
  "string \<Rightarrow> (ScheduleRow \<Rightarrow> ScheduleRow) \<Rightarrow> world \<Rightarrow> (error + VAPICallSchedule) \<times> world" where
  "updateScheduleRows sid f w =
     (case schedulesWithId sid (vapi_call_schedules w) of
        [r] \<Rightarrow>
          (Inr (mapSchedule (f r)),
           w\<lparr> vapi_call_schedules :=
                map (\<lambda>row. if s_id row = sid then f row else row) (vapi_call_schedules w) \<rparr>)
      | _ \<Rightarrow> (Inl (Error ''JSON object requested, multiple (or no) rows returned''), w))"

definition deactivateSchedule :: "string \<Rightarrow> world \<Rightarrow> (error + VAPICallSchedule) \<times> world" where
  "deactivateSchedule sid w = updateScheduleRows sid (\<lambda>row. row\<lparr> s_is_active := False \<rparr>) w"

record ScheduleUpdates =
  u_scheduledTime :: "Date option"
  u_recurrenceEndDate :: "Date option"
  u_lastExecutedAt :: "Date option"

definition updateSchedule :: "string \<Rightarrow> ScheduleUpdates \<Rightarrow> world \<Rightarrow> (error + VAPICallSchedule) \<times> world" where
  "updateSchedule sid updates w =
     (case dateColumn (map_option Some (u_scheduledTime updates)) of
        Inl e \<Rightarrow> (Inl e, w)
      | Inr st \<Rightarrow>
     (case dateColumn (map_option Some (u_recurrenceEndDate updates)) of
        Inl e \<Rightarrow> (Inl e, w)
      | Inr red \<Rightarrow>
     (case dateColumn (map_option Some (u_lastExecutedAt updates)) of
        Inl e \<Rightarrow> (Inl e, w)
      | Inr lea \<Rightarrow>
          updateScheduleRows sid
            (\<lambda>row. row\<lparr> s_scheduled_time := setColumn st (s_scheduled_time row),
                         s_recurrence_end_date := setColumn red (s_recurrence_end_date row),
                         s_last_executed_at := setColumn lea (s_last_executed_at row) \<rparr>) w)))"

section \<open>The service (services/vapiService.ts)\<close>

text \<open>\<open>getAssistant\<close> returns \<open>null\<close> for a response that is not ok and for a rejected
  request.\<close>

definition getAssistant :: "provider \<Rightarrow> world \<Rightarrow> VAPIAssistantResponse option \<times> world" where
  "getAssistant pv w =
     (let w' = w\<lparr> requests := requests w @ [GetAssistant] \<rparr>
      in case assistantResponse pv of
           Ok a \<Rightarrow> (Some a, w')
         | NotOk st msg \<Rightarrow> (None, w')
         | Rejected e \<Rightarrow> (None, w'))"

text \<open>\<open>new Error(errorData.message || `... status ${response.status}`)\<close>.\<close>

definition responseError :: "string option \<Rightarrow> string \<Rightarrow> nat \<Rightarrow> error" where
  "responseError msg fallback st =
     (case msg of
        Some m \<Rightarrow> if m \<noteq> [] then Error m else StatusError fallback st
      | None \<Rightarrow> StatusError fallback st)"

definition stringOr :: "string option \<Rightarrow> string \<Rightarrow> string" where
  "stringOr v d = (case v of Some s \<Rightarrow> if s \<noteq> [] then s else d | None \<Rightarrow> d)"

record CreateCallParams =
  cp_patientId :: string
  cp_promptId :: string
  cp_phoneNumber :: string

definition emptyPayload :: CallRecordPayload where
  "emptyPayload =
     \<lparr> p_patientId = None, p_promptId = None, p_scheduleId = None, p_phoneNumber = None,
       p_providerCallId = None, p_status = None, p_startedAt = None, p_completedAt = None,
       p_duration = None, p_transcript = None, p_transcriptEntries = None, p_artifacts = None,
       p_analysis = None \<rparr>"

text \<open>\<open>createCall\<close>. \<open>createCallTry\<close> is the body of its \<open>try\<close> block; the \<open>catch\<close> block
  stores a failed call and throws the error again. (The analysis and artifact plans sent
  with the request are built from the patient and the prompt name alone and are left out
  of \<open>CallRequest\<close>.)\<close>

definition createCallTry ::
  "provider \<Rightarrow> CreateCallParams \<Rightarrow> Patient \<Rightarrow> VAPIPrompt \<Rightarrow> world \<Rightarrow> (error + VAPICall) \<times> world" where
  "createCallTry pv params patient prompt w =
     (let resolvedPrompt = replacePromptVariables pv (prPrompt prompt) patient
      in case getAssistant pv w of
        (assistant, w1) \<Rightarrow>
          (case Option.bind assistant as_model of
             None \<Rightarrow> (Inl (Error ''Failed to fetch assistant configuration''), w1)
           | Some m \<Rightarrow>
               (let req = \<lparr> customerNumber = cp_phoneNumber params,
                             modelProvider = stringOr (am_provider m) ''openai'',
                             modelName = stringOr (am_model m) ''gpt-4o-mini'',
                             systemContent = resolvedPrompt \<rparr>;
                    w2 = w1\<lparr> requests := requests w1 @ [PostCall req] \<rparr>
                in case postCallResponse pv req of
                     Rejected e \<Rightarrow> (Inl (Thrown e), w2)
                   | NotOk st msg \<Rightarrow> (Inl (responseError msg ''API call failed with status '' st), w2)
                   | Ok data \<Rightarrow>
                       (let status' = mapApiStatusToLocal (Some (resp_status data))
                        in repo_createCall
                             (emptyPayload\<lparr> p_patientId := Some (cp_patientId params),
                                            p_promptId := Some (cp_promptId params),
                                            p_phoneNumber := Some (cp_phoneNumber params),
                                            p_providerCallId := Some (Some (resp_id data)),
                                            p_status := Some status',
                                            p_startedAt :=
                                              Some (if status' = InProgress then Some (Date (now w2))
                                                    else None) \<rparr>) w2))))"

definition createCall :: "provider \<Rightarrow> CreateCallParams \<Rightarrow> world \<Rightarrow> (error + VAPICall) \<times> world" where
  "createCall pv params w =
     (case (patients w (cp_patientId params), vapi_prompts w (cp_promptId params)) of
        (Some patient, Some prompt) \<Rightarrow>
          (case createCallTry pv params patient prompt w of
             (Inr call, w') \<Rightarrow> (Inr call, w')
           | (Inl e, w') \<Rightarrow>
               (case repo_createCall
                       (emptyPayload\<lparr> p_patientId := Some (cp_patientId params),
                                      p_promptId := Some (cp_promptId params),
                                      p_phoneNumber := Some (cp_phoneNumber params),
                                      p_status := Some Failed \<rparr>) w' of
                  (Inl e', w'') \<Rightarrow> (Inl e', w'')
                | (Inr failed, w'') \<Rightarrow> (Inl e, w'')))
      | _ \<Rightarrow> (Inl (Error ''Patient or prompt not found''), w))"

text \<open>\<open>refreshCallDetails\<close>. \<open>refreshPayload\<close> is the object it passes to \<open>updateCall\<close>.\<close>

text \<open>\<open>s ? new Date(s) : old\<close> for an optional string \<open>s\<close>: the empty string is falsy.\<close>

definition dateOr :: "js_runtime \<Rightarrow> string option \<Rightarrow> Date option \<Rightarrow> Date option" where
  "dateOr rt v old =
     (case v of
        Some s \<Rightarrow> if s \<noteq> [] then Some (newDate rt s) else old
      | None \<Rightarrow> old)"

text \<open>\<open>!localCall.providerCallId\<close> holds for \<open>undefined\<close> and for the empty string.\<close>

definition usableId :: "string option \<Rightarrow> string option" where
  "usableId v = (case v of Some s \<Rightarrow> if s \<noteq> [] then Some s else None | None \<Rightarrow> None)"

definition refreshPayload :: "js_runtime \<Rightarrow> VAPICall \<Rightarrow> VapiCallDetailsResponse \<Rightarrow> CallRecordPayload" where
  "refreshPayload rt localCall data =
     (let transcriptInfo = extractTranscriptFromArtifact rt (d_artifact data);
          incomingAnalysis = mapApiAnalysis (d_analysis data)
      in emptyPayload
           \<lparr> p_status := Some (mapApiStatusToLocal (Some (d_status data))),
             p_startedAt := Some (dateOr rt (d_startedAt data) (startedAt localCall)),
             p_completedAt := Some (dateOr rt (d_completedAt data) (completedAt localCall)),
             p_duration :=
               Some (case d_duration data of Some n \<Rightarrow> Some n | None \<Rightarrow> duration localCall),
             p_transcriptEntries :=
               Some (orElse (entries transcriptInfo) (transcriptEntries localCall)),
             p_transcript := Some (orElse (formatted transcriptInfo) (transcript localCall)),
             p_analysis := Some (mergeAnalysis (analysis localCall) incomingAnalysis),
             p_artifacts :=
               Some (Some
                 \<lparr> recording =
                     orElse (Option.bind (d_artifact data) a_recording)
                            (Option.bind (artifacts localCall) recording),
                   logUrl =
                     orElse (Option.bind (d_artifact data) a_logUrl)
                            (Option.bind (artifacts localCall) logUrl),
                   transcriptUrl =
                     orElse (Option.bind (d_artifact data) a_transcriptUrl)
                            (Option.bind (artifacts localCall) transcriptUrl) \<rparr>) \<rparr>)"

definition refreshCallDetails ::
  "provider \<Rightarrow> js_runtime \<Rightarrow> string \<Rightarrow> world \<Rightarrow> (error + VAPICall) \<times> world" where
  "refreshCallDetails pv rt cid w =
     (case repo_getCallById cid w of
        Inl e \<Rightarrow> (Inl e, w)
      | Inr None \<Rightarrow> (Inl (Error ''Call not found''), w)
      | Inr (Some localCall) \<Rightarrow>
          (case usableId (providerCallId localCall) of
             None \<Rightarrow> (Inl (Error ''This call does not yet have a Vapi call ID to sync.''), w)
           | Some pcid \<Rightarrow>
               (let w1 = w\<lparr> requests := requests w @ [GetCall pcid] \<rparr>
                in case getCallResponse pv pcid of
                     Rejected e \<Rightarrow> (Inl (Thrown e), w1)
                   | NotOk st msg \<Rightarrow>
                       (Inl (responseError msg ''Failed to fetch call details with status '' st), w1)
                   | Ok data \<Rightarrow> repo_updateCall cid (refreshPayload rt localCall data) w1)))"

section \<open>The schedule executor\<close>

text \<open>Calendar date (days since the epoch) and time of day (milliseconds since midnight)
  of an instant, in UTC, for the rules of the specification that speak of "today's date"
  and of the "time-of-day".\<close>

definition calendarDate :: "instant \<Rightarrow> int" where
  "calendarDate t = t div 86400000"

definition timeOfDay :: "instant \<Rightarrow> int" where
  "timeOfDay t = t mod 86400000"

text \<open>
  Modelled from the spec: \<open>vapiService.executeDueSchedules\<close>, which the poller in
  components/VAPIPage.tsx calls at start-up and every 30 seconds, is not among the source
  files. The definitions of this section follow the algorithm of the specification's
  Schedule Executor over the operations that are in the source: the due schedules come
  from \<open>listDueSchedules\<close>; for each one the patient and the prompt are resolved (a missing
  one fails that schedule only); the call is placed by \<open>createCall\<close> with the patient's
  phone number passed through \<open>formatPhoneToE164\<close>, and \<open>createCall\<close> itself records the
  accepted or the failed call; after a successful initiation the schedule gets
  \<open>lastExecutedAt = now\<close> through \<open>updateSchedule\<close>, and is deactivated through
  \<open>deactivateSchedule\<close> if it is one-time, or if it is recurring with an end date before
  today; a failed initiation leaves the schedule alone and is counted in \<open>failed\<close>.
  (\<open>createCall\<close> takes no schedule id, so the back-reference from the call to the schedule
  is not part of this model.)
\<close>

text \<open>Modelled from the spec: the result \<open>{executed, failed}\<close> of a pass (the poller reads
  \<open>result.executed\<close>).\<close>

record ExecutionResult =
  executed :: nat
  failed :: nat

text \<open>Modelled from the spec: the executor's test "type = recurring and recurrenceEndDate is
  set and now's date > that date".\<close>

definition pastEndDate :: "VAPICallSchedule \<Rightarrow> instant \<Rightarrow> bool" where
  "pastEndDate s t =
     (schedType s = Recurring \<and>
      (case recurrenceEndDate s of
         Some (Date e) \<Rightarrow> calendarDate e < calendarDate t
       | _ \<Rightarrow> False))"

text \<open>Modelled from the spec: the parameters of the executor's call to \<open>createCall\<close>, with
  the patient's phone number "normalized to E.164 format" by \<open>formatPhoneToE164\<close>
  (\<open>patient.phone || ""\<close>, as the call sites in components/VAPIPage.tsx have it).\<close>

definition scheduleCallParams :: "VAPICallSchedule \<Rightarrow> Patient \<Rightarrow> CreateCallParams" where
  "scheduleCallParams s patient =
     \<lparr> cp_patientId = schedPatientId s,
       cp_promptId = schedPromptId s,
       cp_phoneNumber = formatPhoneToE164 (stringOr (phone patient) []) \<rparr>"

text \<open>Modelled from the spec: steps 3 to 6 of the executor for one due schedule. The result
  is \<open>True\<close> when the schedule counts as executed and \<open>False\<close> when it counts as failed.\<close>

definition executeSchedule :: "provider \<Rightarrow> VAPICallSchedule \<Rightarrow> world \<Rightarrow> bool \<times> world" where
  "executeSchedule pv s w =
     (case (patients w (schedPatientId s), vapi_prompts w (schedPromptId s)) of
        (Some patient, Some prompt) \<Rightarrow>
          (case createCall pv (scheduleCallParams s patient) w of
             (Inl e, w1) \<Rightarrow> (False, w1)
           | (Inr call, w1) \<Rightarrow>
               (case updateSchedule (schedId s)
                       \<lparr> u_scheduledTime = None, u_recurrenceEndDate = None,
                         u_lastExecutedAt = Some (Date (now w1)) \<rparr> w1 of
                  (Inl e, w2) \<Rightarrow> (False, w2)
                | (Inr updated, w2) \<Rightarrow>
                    if schedType s = OneTime \<or> pastEndDate s (now w2)
                    then (case deactivateSchedule (schedId s) w2 of
                            (Inl e, w3) \<Rightarrow> (False, w3)
                          | (Inr deactivated, w3) \<Rightarrow> (True, w3))
                    else (True, w2)))
      | _ \<Rightarrow> (False, w))"

text \<open>Modelled from the spec: the executor's loop over the due schedules, one after the
  other, with the counts of its result.\<close>

fun executeAll ::
  "provider \<Rightarrow> VAPICallSchedule list \<Rightarrow> ExecutionResult \<Rightarrow> world \<Rightarrow> ExecutionResult \<times> world" where
  "executeAll pv [] res w = (res, w)"
| "executeAll pv (s # rest) res w =
     (case executeSchedule pv s w of
        (True, w') \<Rightarrow> executeAll pv rest (res\<lparr> executed := executed res + 1 \<rparr>) w'
      | (False, w') \<Rightarrow> executeAll pv rest (res\<lparr> failed := failed res + 1 \<rparr>) w')"

text \<open>Modelled from the spec: \<open>executeDueSchedules\<close>, steps 1, 2 and 7 (the due schedules are
  those \<open>listDueSchedules\<close> returns).\<close>

definition executeDueSchedules :: "provider \<Rightarrow> world \<Rightarrow> ExecutionResult \<times> world" where
  "executeDueSchedules pv w = executeAll pv (listDueSchedules w) \<lparr> executed = 0, failed = 0 \<rparr> w"

text \<open>The call initiation for a schedule succeeds in a state when the patient and the
  prompt are found and \<open>createCall\<close> returns a call.\<close>

definition initiationSucceeds :: "provider \<Rightarrow> world \<Rightarrow> VAPICallSchedule \<Rightarrow> bool" where
  "initiationSucceeds pv w s =
     (case (patients w (schedPatientId s), vapi_prompts w (schedPromptId s)) of
        (Some patient, Some prompt) \<Rightarrow>
          (case fst (createCall pv (scheduleCallParams s patient) w) of
             Inr call \<Rightarrow> True
           | Inl e \<Rightarrow> False)
      | _ \<Rightarrow> False)"

section \<open>The due rules as the specification words them\<close>

text \<open>A schedule is reported as due when \<open>listDueSchedules\<close> returns a schedule with its id.\<close>

definition reportedDue :: "world \<Rightarrow> ScheduleRow \<Rightarrow> bool" where
  "reportedDue w row = (s_id row \<in> schedId ` set (listDueSchedules w))"

text \<open>The rule of the specification for a one-time schedule: active, \<open>scheduledTime\<close>
  exists, \<open>scheduledTime <= now\<close>, and \<open>lastExecutedAt\<close> unset.\<close>

definition oneTimeDueSpec :: "instant \<Rightarrow> ScheduleRow \<Rightarrow> bool" where
  "oneTimeDueSpec t row =
     (s_is_active row \<and>
      (case s_scheduled_time row of None \<Rightarrow> False | Some st \<Rightarrow> st \<le> t) \<and>
      s_last_executed_at row = None)"

text \<open>The rule of the specification for a recurring daily schedule: not yet executed on
  today's date, the time of day reached (any time when none is set), and the end date not
  passed.\<close>

definition dailyDueSpec :: "instant \<Rightarrow> ScheduleRow \<Rightarrow> bool" where
  "dailyDueSpec t row =
     ((case s_last_executed_at row of None \<Rightarrow> True | Some l \<Rightarrow> calendarDate l \<noteq> calendarDate t) \<and>
      (case s_scheduled_time row of None \<Rightarrow> True | Some st \<Rightarrow> timeOfDay st \<le> timeOfDay t) \<and>
      (case s_recurrence_end_date row of None \<Rightarrow> True | Some e \<Rightarrow> calendarDate t \<le> calendarDate e))"

section \<open>Example data\<close>

definition exampleRuntime :: js_runtime where
  "exampleRuntime =
     \<lparr> numberToString = (\<lambda>x. if x = 0 then ''0'' else ''1''),
       toFixed1 = (\<lambda>x. if x = 0 then ''0.0'' else ''1.5''),
       newDate = (\<lambda>s. if s = ''2024-06-01T09:05:00.000Z'' then Date 1717232700000 else InvalidDate),
       stringToUpperCase = asciiUpperCase,
       stringTrim = asciiTrim \<rparr>"

definition examplePatient :: Patient where
  "examplePatient =
     \<lparr> patId = ''pat-1'', firstName = ''Ada'', lastName = ''Byron'', phone = Some ''(555) 123-4567'' \<rparr>"

definition examplePrompt :: VAPIPrompt where
  "examplePrompt =
     \<lparr> prId = ''prompt-1'', prName = ''Daily wellness check'', prPrompt = ''Hello {{patientName}}'' \<rparr>"

definition exampleParams :: CreateCallParams where
  "exampleParams =
     \<lparr> cp_patientId = ''pat-1'', cp_promptId = ''prompt-1'', cp_phoneNumber = ''+15551234567'' \<rparr>"

text \<open>A stored call that was never accepted by the provider, and one that was.\<close>

definition failedCallRow :: CallRow where
  "failedCallRow =
     \<lparr> c_id = ''call-1'', c_patient_id = ''pat-1'', c_prompt_id = ''prompt-1'', c_schedule_id = None,
       c_phone_number = ''+15551234567'', c_provider_call_id = None, c_status = Failed,
       c_started_at = None, c_completed_at = None, c_duration = None, c_transcript = None,
       c_transcript_entries = None, c_artifacts = None, c_analysis = None,
       c_created_at = 1717232400000 \<rparr>"

definition acceptedCallRow :: CallRow where
  "acceptedCallRow =
     \<lparr> c_id = ''call-2'', c_patient_id = ''pat-1'', c_prompt_id = ''prompt-1'', c_schedule_id = None,
       c_phone_number = ''+15551234567'', c_provider_call_id = Some ''prov-123'', c_status = Pending,
       c_started_at = None, c_completed_at = None, c_duration = None,
       c_transcript = Some ''AI: earlier'',
       c_transcript_entries = None,
       c_artifacts =
         Some \<lparr> recording = Some ''https://rec/1.wav'', logUrl = None, transcriptUrl = None \<rparr>,
       c_analysis =
         Some \<lparr> summary = Some ''stable'', structuredData = Some (JObj [(''riskLevel'', JStr ''high'')]),
                successEvaluation = Some (JStr ''pass'') \<rparr>,
       c_created_at = 1717232400000 \<rparr>"

text \<open>The one-time schedule of the specification's scenario (due at 09:00, looked at at
  09:05), the same schedule with \<open>last_executed_at\<close> already set, and a recurring daily
  schedule.\<close>

definition oneTimeRow :: ScheduleRow where
  "oneTimeRow =
     \<lparr> s_id = ''sched-1'', s_patient_id = ''pat-1'', s_prompt_id = ''prompt-1'', s_type = OneTime,
       s_scheduled_time = Some 1717232400000, s_recurrence_type = None,
       s_recurrence_end_date = None, s_day_of_week = None, s_day_of_month = None,
       s_created_at = 1717200000000, s_is_active = True, s_last_executed_at = None \<rparr>"

definition executedRow :: ScheduleRow where
  "executedRow = oneTimeRow\<lparr> s_id := ''sched-2'', s_last_executed_at := Some 1717232430000 \<rparr>"

definition dailyRow :: ScheduleRow where
  "dailyRow =
     oneTimeRow\<lparr> s_id := ''sched-3'', s_type := Recurring, s_recurrence_type := Some Daily \<rparr>"

definition exampleWorld :: world where
  "exampleWorld =
     \<lparr> vapi_calls = [failedCallRow, acceptedCallRow],
       vapi_call_schedules = [oneTimeRow, executedRow, dailyRow],
       patients = (\<lambda>i. if i = ''pat-1'' then Some examplePatient else None),
       vapi_prompts = (\<lambda>i. if i = ''prompt-1'' then Some examplePrompt else None),
       requests = [],
       now = 1717232700000,
       gen_random_uuid = (\<lambda>n. ''call-new-'' @ replicate n (CHR ''i'')),
       uuid_next = 0 \<rparr>"

definition exampleAssistant :: VAPIAssistantResponse where
  "exampleAssistant =
     \<lparr> as_id = ''assistant-1'', as_model = Some \<lparr> am_provider = None, am_model = None \<rparr> \<rparr>"

text \<open>A snapshot with transcript messages and structured data, without a recording and a
  summary, and with \<open>null\<close> for the success evaluation.\<close>

definition exampleDetails :: VapiCallDetailsResponse where
  "exampleDetails =
     \<lparr> d_id = ''prov-123'', d_status = ''ended'',
       d_startedAt = Some ''2024-06-01T09:05:00.000Z'', d_completedAt = None,
       d_duration = Some 42,
       d_artifact =
         Some \<lparr> a_recording = None, a_logUrl = Some ''https://log/1'',
                a_transcript = Some (JStr ''AI: Hello''), a_transcriptUrl = None,
                a_messages =
                  Some (JArr [JObj [(''role'', JStr ''assistant''), (''message'', JStr ''Hello''),
                                    (''time'', JNum 0)],
                              JObj [(''role'', JStr ''system'')],
                              JStr ''fine, thanks'']),
                a_messagesOpenAIFormatted = None \<rparr>,
       d_analysis =
         Some \<lparr> r_summary = None, r_structuredData = Some (JObj [(''riskLevel'', JStr ''low'')]),
                r_successEvaluation = Some JNull \<rparr> \<rparr>"

definition queuedProvider :: provider where
  "queuedProvider =
     \<lparr> assistantResponse = Ok exampleAssistant,
       postCallResponse = (\<lambda>req. Ok \<lparr> resp_id = ''prov-123'', resp_status = ''queued'' \<rparr>),
       getCallResponse = (\<lambda>i. Ok exampleDetails),
       replacePromptVariables = (\<lambda>t p. t) \<rparr>"

definition failingProvider :: provider where
  "failingProvider =
     \<lparr> assistantResponse = Ok exampleAssistant,
       postCallResponse = (\<lambda>req. Rejected ''Failed to fetch''),
       getCallResponse = (\<lambda>i. Rejected ''Failed to fetch''),
       replacePromptVariables = (\<lambda>t p. t) \<rparr>"

section \<open>Properties of the call-scheduling core\<close>

subsection \<open>Helper facts\<close>

lemma lowerChar_upperChar: "lowerChar (upperChar c) = lowerChar c"
  by (simp add: lowerChar_def upperChar_def)

lemma toLowerCase_asciiUpperCase: "toLowerCase (asciiUpperCase s) = toLowerCase s"
  by (simp add: toLowerCase_def asciiUpperCase_def lowerChar_upperChar)

lemma mapApiStatusToLocal_lower:
  "toLowerCase s' = toLowerCase s \<Longrightarrow> mapApiStatusToLocal (Some s') = mapApiStatusToLocal (Some s)"
  by (simp add: mapApiStatusToLocal_def)

lemma mapApiStatusToLocal_queued: "mapApiStatusToLocal (Some ''queued'') = Pending"
  by (simp add: mapApiStatusToLocal_def toLowerCase_def lowerChar_def)

lemma formatPhoneToE164_ten_digits:
  assumes "length (filter isDigit ph) = 10"
  shows "formatPhoneToE164 ph = ''+1'' @ filter isDigit ph \<and> isE164 (formatPhoneToE164 ph)"
proof -
  have f: "formatPhoneToE164 ph = ''+1'' @ filter isDigit ph"
    using assms by (simp add: formatPhoneToE164_def)
  have "list_all isDigit (filter isDigit ph)"
    by (simp add: list_all_iff)
  moreover have "isDigit CHR ''1''"
    by (simp add: isDigit_def)
  ultimately show ?thesis
    using assms f by (simp add: isE164_def)
qed

lemmas createCall_defs =
  createCall_def createCallTry_def getAssistant_def repo_createCall_def buildCallPayload_def
  insertCall_def dateColumn_def toISOString_def emptyPayload_def nullable_def mapCall_def

lemmas example_defs =
  exampleWorld_def examplePatient_def examplePrompt_def exampleParams_def exampleAssistant_def
  queuedProvider_def failingProvider_def failedCallRow_def acceptedCallRow_def
  oneTimeRow_def executedRow_def dailyRow_def

subsection \<open>Initiating a call\<close>

text \<open>
  C7. When the provider accepts the initiation request, \<open>createCall\<close> stores and returns a
  call whose status is the image of the provider's state under the lookup (completed and
  finished give completed, failed and error give failed, in-progress, running and live
  give in-progress, anything else pending), whatever the case of the letters; its
  \<open>providerCallId\<close> is the provider's id; \<open>startedAt\<close> is set, to the current instant, only
  when the status is in-progress. A response with status "queued" gives a pending call
  without \<open>startedAt\<close>.
\<close>

theorem createCall_accepted:
  assumes pat: "patients w (cp_patientId params) = Some patient"
    and pr: "vapi_prompts w (cp_promptId params) = Some prompt"
    and ar: "assistantResponse pv = Ok a"
    and am: "as_model a = Some m"
    and post: "postCallResponse pv
                 \<lparr> customerNumber = cp_phoneNumber params,
                   modelProvider = stringOr (am_provider m) ''openai'',
                   modelName = stringOr (am_model m) ''gpt-4o-mini'',
                   systemContent = replacePromptVariables pv (prPrompt prompt) patient \<rparr> = Ok data"
  shows "\<exists>call w'. createCall pv params w = (Inr call, w') \<and>
           map mapCall (vapi_calls w') = map mapCall (vapi_calls w) @ [call] \<and>
           status call =
             (let s = toLowerCase (resp_status data)
              in if s = ''completed'' \<or> s = ''finished'' then Completed
                 else if s = ''failed'' \<or> s = ''error'' then Failed
                 else if s = ''in-progress'' \<or> s = ''running'' \<or> s = ''live'' then InProgress
                 else Pending) \<and>
           mapApiStatusToLocal (Some (asciiUpperCase (resp_status data))) = status call \<and>
           providerCallId call = Some (resp_id data) \<and>
           startedAt call = (if status call = InProgress then Some (Date (now w)) else None) \<and>
           (resp_status data = ''queued'' \<longrightarrow> status call = Pending \<and> startedAt call = None)"
proof -
  let ?st = "mapApiStatusToLocal (Some (resp_status data))"
  have "\<exists>call w'. createCall pv params w = (Inr call, w') \<and>
          map mapCall (vapi_calls w') = map mapCall (vapi_calls w) @ [call] \<and>
          status call = ?st \<and> providerCallId call = Some (resp_id data) \<and>
          startedAt call = (if ?st = InProgress then Some (Date (now w)) else None)"
    using assms by (simp add: createCall_defs Let_def)
  then obtain call w' where run: "createCall pv params w = (Inr call, w')"
    and stored: "map mapCall (vapi_calls w') = map mapCall (vapi_calls w) @ [call]"
    and st: "status call = ?st"
    and pid: "providerCallId call = Some (resp_id data)"
    and started: "startedAt call = (if ?st = InProgress then Some (Date (now w)) else None)"
    by blast
  have table: "?st =
             (let s = toLowerCase (resp_status data)
              in if s = ''completed'' \<or> s = ''finished'' then Completed
                 else if s = ''failed'' \<or> s = ''error'' then Failed
                 else if s = ''in-progress'' \<or> s = ''running'' \<or> s = ''live'' then InProgress
                 else Pending)"
    by (simp add: mapApiStatusToLocal_def Let_def)
  have up: "mapApiStatusToLocal (Some (asciiUpperCase (resp_status data))) = ?st"
    by (rule mapApiStatusToLocal_lower) (rule toLowerCase_asciiUpperCase)
  have queued: "resp_status data = ''queued'' \<longrightarrow> ?st = Pending"
    by (simp add: mapApiStatusToLocal_queued)
  have q: "resp_status data = ''queued'' \<longrightarrow> status call = Pending \<and> startedAt call = None"
    using queued st started by simp
  show ?thesis
  proof (intro exI conjI)
    show "createCall pv params w = (Inr call, w')" by (rule run)
    show "map mapCall (vapi_calls w') = map mapCall (vapi_calls w) @ [call]" by (rule stored)
    show "status call =
             (let s = toLowerCase (resp_status data)
              in if s = ''completed'' \<or> s = ''finished'' then Completed
                 else if s = ''failed'' \<or> s = ''error'' then Failed
                 else if s = ''in-progress'' \<or> s = ''running'' \<or> s = ''live'' then InProgress
                 else Pending)"
      using st table by simp
    show "mapApiStatusToLocal (Some (asciiUpperCase (resp_status data))) = status call"
      using up st by simp
    show "providerCallId call = Some (resp_id data)" by (rule pid)
    show "startedAt call = (if status call = InProgress then Some (Date (now w)) else None)"
      using started st by simp
    show "resp_status data = ''queued'' \<longrightarrow> status call = Pending \<and> startedAt call = None"
      by (rule q)
  qed
qed

theorem createCall_accepted_witness:
  "\<exists>call w'. createCall queuedProvider exampleParams exampleWorld = (Inr call, w') \<and>
     status call = Pending \<and> providerCallId call = Some ''prov-123'' \<and> startedAt call = None"
proof -
  have h1: "patients exampleWorld (cp_patientId exampleParams) = Some examplePatient"
    by (simp add: example_defs)
  have h2: "vapi_prompts exampleWorld (cp_promptId exampleParams) = Some examplePrompt"
    by (simp add: example_defs)
  have h3: "assistantResponse queuedProvider = Ok exampleAssistant"
    by (simp add: example_defs)
  have h4: "as_model exampleAssistant = Some \<lparr> am_provider = None, am_model = None \<rparr>"
    by (simp add: example_defs)
  have h5: "postCallResponse queuedProvider
                 \<lparr> customerNumber = cp_phoneNumber exampleParams,
                   modelProvider = stringOr (am_provider \<lparr> am_provider = None, am_model = None \<rparr>) ''openai'',
                   modelName = stringOr (am_model \<lparr> am_provider = None, am_model = None \<rparr>) ''gpt-4o-mini'',
                   systemContent =
                     replacePromptVariables queuedProvider (prPrompt examplePrompt) examplePatient \<rparr>
             = Ok \<lparr> resp_id = ''prov-123'', resp_status = ''queued'' \<rparr>"
    by (simp add: example_defs)
  from createCall_accepted [OF h1 h2 h3 h4 h5] obtain call w' where
    run: "createCall queuedProvider exampleParams exampleWorld = (Inr call, w')"
    and pid: "providerCallId call = Some (resp_id \<lparr> resp_id = ''prov-123'', resp_status = ''queued'' \<rparr>)"
    and q: "resp_status \<lparr> resp_id = ''prov-123'', resp_status = ''queued'' \<rparr> = ''queued'' \<longrightarrow>
              status call = Pending \<and> startedAt call = None"
    by blast
  from q have "status call = Pending \<and> startedAt call = None"
    by simp
  with run pid show ?thesis
    by (intro exI [of _ call] exI [of _ w']) simp
qed



text \<open>
  C10 (the code at the input where it leaves the format). A patient phone string that
  starts with "+1", has eleven digits and is written with spaces, parentheses or hyphens
  is sent to the provider as it is, which is not the E.164 format.
\<close>

theorem formatPhoneToE164_returns_formatted_input:
  "formatPhoneToE164 ''+1 (555) 123-4567'' = ''+1 (555) 123-4567'' \<and>
   \<not> isE164 (formatPhoneToE164 ''+1 (555) 123-4567'') \<and>
   formatPhoneToE164 ''(555) 123-4567'' = ''+15551234567'' \<and>
   isE164 (formatPhoneToE164 ''(555) 123-4567'')"
  by (simp add: formatPhoneToE164_def isE164_def isDigit_def startsWith_def)

subsection \<open>Refreshing a call: preconditions\<close>

text \<open>
  C8. \<open>refreshCallDetails\<close> fails with "Call not found" when no stored call has the id, and
  with the missing-provider-id error when the stored call has no \<open>providerCallId\<close>. In
  both cases the state is returned as it was: no request has been sent and no stored call
  has changed.
\<close>

theorem refreshCallDetails_preconditions:
  "(cid \<notin> c_id ` set (vapi_calls w) \<longrightarrow>
      refreshCallDetails pv rt cid w = (Inl (Error ''Call not found''), w)) \<and>
   (repo_getCallById cid w = Inr (Some c) \<and> providerCallId c = None \<longrightarrow>
      refreshCallDetails pv rt cid w =
        (Inl (Error ''This call does not yet have a Vapi call ID to sync.''), w))"
proof (intro conjI impI)
  assume "cid \<notin> c_id ` set (vapi_calls w)"
  then have "filter (\<lambda>r. c_id r = cid) (vapi_calls w) = []"
    by (auto simp: filter_empty_conv)
  then show "refreshCallDetails pv rt cid w = (Inl (Error ''Call not found''), w)"
    by (simp add: refreshCallDetails_def repo_getCallById_def rowsWithId_def)
next
  assume "repo_getCallById cid w = Inr (Some c) \<and> providerCallId c = None"
  then show "refreshCallDetails pv rt cid w =
        (Inl (Error ''This call does not yet have a Vapi call ID to sync.''), w)"
    by (simp add: refreshCallDetails_def usableId_def)
qed

theorem refreshCallDetails_preconditions_witness:
  "refreshCallDetails queuedProvider exampleRuntime ''call-9'' exampleWorld =
     (Inl (Error ''Call not found''), exampleWorld) \<and>
   refreshCallDetails queuedProvider exampleRuntime ''call-1'' exampleWorld =
     (Inl (Error ''This call does not yet have a Vapi call ID to sync.''), exampleWorld)"
proof -
  have a: "''call-9'' \<notin> c_id ` set (vapi_calls exampleWorld)"
    by (simp add: example_defs)
  have b: "repo_getCallById ''call-1'' exampleWorld = Inr (Some (mapCall failedCallRow)) \<and>
           providerCallId (mapCall failedCallRow) = None"
    by (simp add: example_defs repo_getCallById_def rowsWithId_def mapCall_def)
  from refreshCallDetails_preconditions
         [of "''call-9''" exampleWorld queuedProvider exampleRuntime "mapCall failedCallRow"] a
  have 1: "refreshCallDetails queuedProvider exampleRuntime ''call-9'' exampleWorld =
     (Inl (Error ''Call not found''), exampleWorld)"
    by blast
  from refreshCallDetails_preconditions
         [of "''call-1''" exampleWorld queuedProvider exampleRuntime "mapCall failedCallRow"] b
  have 2: "refreshCallDetails queuedProvider exampleRuntime ''call-1'' exampleWorld =
     (Inl (Error ''This call does not yet have a Vapi call ID to sync.''), exampleWorld)"
    by blast
  from 1 2 show ?thesis by simp
qed

subsection \<open>Which schedules are reported as due\<close>

lemma reportedDue_iff:
  assumes "row \<in> set (vapi_call_schedules w)"
    and "distinct (map s_id (vapi_call_schedules w))"
  shows "reportedDue w row = dueFilter (now w) row"
proof
  assume "reportedDue w row"
  then obtain r where r: "r \<in> set (vapi_call_schedules w)" "dueFilter (now w) r" "s_id r = s_id row"
    by (auto simp: reportedDue_def listDueSchedules_def mapSchedule_def)
  from assms r(1) r(3) have "r = row"
    by (auto simp: distinct_map dest: inj_onD)
  with r(2) show "dueFilter (now w) row"
    by simp
next
  assume "dueFilter (now w) row"
  with assms(1) have "mapSchedule row \<in> set (listDueSchedules w)"
    by (simp add: listDueSchedules_def)
  then have "schedId (mapSchedule row) \<in> schedId ` set (listDueSchedules w)"
    by (rule imageI)
  then show "reportedDue w row"
    by (simp add: reportedDue_def mapSchedule_def)
qed

text \<open>
  C1 (as the code has it). For a one-time schedule stored under its own id,
  \<open>listDueSchedules\<close> reports it as due exactly when it is active and its \<open>scheduledTime\<close>
  exists and is not after now. The column \<open>last_executed_at\<close> is not consulted.
\<close>

theorem listDueSchedules_one_time:
  assumes "row \<in> set (vapi_call_schedules w)"
    and "distinct (map s_id (vapi_call_schedules w))"
    and "s_type row = OneTime"
  shows "reportedDue w row =
           (s_is_active row \<and> (\<exists>t. s_scheduled_time row = Some t \<and> t \<le> now w))"
  using assms by (auto simp: reportedDue_iff dueFilter_def split: option.splits)

theorem listDueSchedules_one_time_witness:
  "reportedDue exampleWorld oneTimeRow \<and> s_is_active oneTimeRow \<and>
   s_scheduled_time oneTimeRow = Some 1717232400000 \<and> now exampleWorld = 1717232700000"
proof -
  have a: "oneTimeRow \<in> set (vapi_call_schedules exampleWorld)"
    by (simp add: example_defs)
  have b: "distinct (map s_id (vapi_call_schedules exampleWorld))"
    by (simp add: example_defs)
  have c: "s_type oneTimeRow = OneTime"
    by (simp add: example_defs)
  from listDueSchedules_one_time [OF a b c] show ?thesis
    by (simp add: example_defs)
qed

text \<open>
  C1 as the specification states it fails: a stored one-time schedule that is active, was
  scheduled for 09:00 and already has \<open>last_executed_at\<close> set is reported as due at 09:05,
  while the stated rule says it is not due.
\<close>

theorem listDueSchedules_ignores_lastExecutedAt:
  "executedRow \<in> set (vapi_call_schedules exampleWorld) \<and>
   s_type executedRow = OneTime \<and>
   s_last_executed_at executedRow = Some 1717232430000 \<and>
   reportedDue exampleWorld executedRow \<and>
   \<not> oneTimeDueSpec (now exampleWorld) executedRow"
  by (simp add: example_defs reportedDue_def listDueSchedules_def dueFilter_def mapSchedule_def
      oneTimeDueSpec_def)

text \<open>
  C2 (as the code has it). A recurring schedule stored under its own id is never reported
  as due: \<open>listDueSchedules\<close> selects schedules of type one-time only.
\<close>

theorem listDueSchedules_never_recurring:
  assumes "row \<in> set (vapi_call_schedules w)"
    and "distinct (map s_id (vapi_call_schedules w))"
    and "s_type row = Recurring"
  shows "\<not> reportedDue w row"
  using assms by (simp add: reportedDue_iff dueFilter_def)

theorem listDueSchedules_never_recurring_witness:
  "s_type dailyRow = Recurring \<and> s_recurrence_type dailyRow = Some Daily \<and>
   \<not> reportedDue exampleWorld dailyRow"
proof -
  have a: "dailyRow \<in> set (vapi_call_schedules exampleWorld)"
    by (simp add: example_defs)
  have b: "distinct (map s_id (vapi_call_schedules exampleWorld))"
    by (simp add: example_defs)
  have c: "s_type dailyRow = Recurring"
    by (simp add: example_defs)
  from listDueSchedules_never_recurring [OF a b c] show ?thesis
    by (simp add: example_defs)
qed

text \<open>
  C2 as the specification states it fails: an active recurring daily schedule with time of
  day 09:00, never executed and without an end date, is due at 09:05 by the stated rule
  and is not reported as due.
\<close>

theorem listDueSchedules_skips_daily:
  "dailyRow \<in> set (vapi_call_schedules exampleWorld) \<and>
   s_is_active dailyRow \<and> s_type dailyRow = Recurring \<and>
   s_recurrence_type dailyRow = Some Daily \<and>
   dailyDueSpec (now exampleWorld) dailyRow \<and>
   \<not> reportedDue exampleWorld dailyRow"
  by (simp add: example_defs reportedDue_def listDueSchedules_def dueFilter_def mapSchedule_def
      dailyDueSpec_def calendarDate_def timeOfDay_def)

subsection \<open>Transcript normalisation: helper facts\<close>

lemma toTranscriptEntry_message: "toTranscriptEntry rt e = Some t \<Longrightarrow> message t \<noteq> []"
  by (auto simp: toTranscriptEntry_def split: if_splits option.splits json.splits)

lemma firstEntries_nonempty: "firstEntries rt cands = Some es \<Longrightarrow> es \<noteq> []"
  by (induction cands) (auto simp: Let_def split: option.splits json.splits if_splits)

lemma normalizeTranscriptEntries_nonempty:
  assumes "normalizeTranscriptEntries rt raw = Some es"
  shows "es \<noteq> []"
proof -
  from assms have "\<exists>cands. firstEntries rt cands = Some es"
    unfolding normalizeTranscriptEntries_def Let_def
    by (auto split: if_splits simp del: firstEntries.simps append.simps)
  then show ?thesis
    by (blast dest: firstEntries_nonempty)
qed

lemma orElse_Some: "orElse a b = Some x \<Longrightarrow> a = Some x \<or> b = Some x"
  by (cases a) auto

lemma normalizeTranscriptEntries_array:
  "normalizeTranscriptEntries rt (Some (JArr xs)) =
     (if entriesOf rt xs = [] then None else Some (entriesOf rt xs))"
  by (simp add: normalizeTranscriptEntries_def Let_def)

lemma extract_entries_nonempty:
  assumes "entries (extractTranscriptFromArtifact rt a) = Some es"
  shows "es \<noteq> []"
proof (cases a)
  case None
  with assms show ?thesis
    by (simp add: extractTranscriptFromArtifact_def)
next
  case (Some art)
  with assms have "\<exists>raw. normalizeTranscriptEntries rt raw = Some es"
    by (auto simp: extractTranscriptFromArtifact_def Let_def dest!: orElse_Some)
  then show ?thesis
    by (blast dest: normalizeTranscriptEntries_nonempty)
qed

lemma formatted_extract:
  "formatted (extractTranscriptFromArtifact rt a) =
     (case entries (extractTranscriptFromArtifact rt a) of
        None \<Rightarrow> None
      | Some es \<Rightarrow> Some (join [CHR 0x0A] (map (formatEntry rt) es)))"
proof (cases "entries (extractTranscriptFromArtifact rt a)")
  case None
  then show ?thesis
    by (cases a) (simp_all add: extractTranscriptFromArtifact_def Let_def formatTranscript_def)
next
  case (Some es)
  then have "es \<noteq> []" by (rule extract_entries_nonempty)
  with Some show ?thesis
    by (cases a) (auto simp add: extractTranscriptFromArtifact_def Let_def formatTranscript_def)
qed

lemma firstEntries_Cons:
  "firstEntries rt (v # rest) =
     orElse (case v of
               Some (JArr ys) \<Rightarrow> if entriesOf rt ys = [] then None else Some (entriesOf rt ys)
             | _ \<Rightarrow> None)
            (firstEntries rt rest)"
  by (cases v) (auto simp: Let_def split: json.splits)

lemma normalizeTranscriptEntries_object:
  "normalizeTranscriptEntries rt (Some (JObj fs)) =
     (let conv = (\<lambda>v. case v of
                        Some (JArr ys) \<Rightarrow>
                          if entriesOf rt ys = [] then None else Some (entriesOf rt ys)
                      | _ \<Rightarrow> None)
      in orElse (conv (map_of fs ''entries''))
           (orElse (conv (map_of fs ''messages''))
              (orElse (conv (map_of fs ''transcript'')) (conv (map_of fs ''items'')))))"
proof -
  have last: "\<And>c. orElse c (firstEntries rt []) = c"
    by (case_tac c) simp_all
  show ?thesis
    unfolding normalizeTranscriptEntries_def Let_def
    by (simp only: truthy.simps not_True_eq_False if_False json.case option.case append.simps
          getProp.simps firstEntries_Cons last orElse.simps)
qed

lemma orElse_assoc: "orElse (orElse a b) c = orElse a (orElse b c)"
  by (cases a) simp_all

lemma entries_extract:
  "entries (extractTranscriptFromArtifact rt art) =
     (case art of
        None \<Rightarrow> None
      | Some a \<Rightarrow>
          orElse (normalizeTranscriptEntries rt (a_transcript a))
            (orElse (normalizeTranscriptEntries rt (a_messages a))
                    (normalizeTranscriptEntries rt (a_messagesOpenAIFormatted a))))"
  by (simp add: extractTranscriptFromArtifact_def Let_def split: option.splits)

lemma formatted_is_formatTranscript:
  "formatted (extractTranscriptFromArtifact rt art) =
     formatTranscript rt (entries (extractTranscriptFromArtifact rt art))"
  by (simp add: extractTranscriptFromArtifact_def Let_def formatTranscript_def split: option.splits)

subsection \<open>Refreshing a call: merging the provider's snapshot\<close>

lemma orElse_idem: "orElse a (orElse a b) = orElse a b"
  by (cases a) simp_all

lemma orElse_None_left: "orElse None b = b"
  by simp

lemma orElseJson_idem: "orElseJson a (orElseJson a b) = orElseJson a b"
  by (simp add: orElseJson_def)

lemma mergeAnalysis_idem: "mergeAnalysis (mergeAnalysis ex inc) inc = mergeAnalysis ex inc"
  by (cases ex; cases inc) (simp_all add: mergeAnalysis_def orElse_idem orElseJson_idem)

lemma c_id_patchCall: "c_id (patchCall patch row) = c_id row"
  by (simp add: patchCall_def)

lemma rowsWithId_patch:
  "rowsWithId cid (map (\<lambda>row. if c_id row = cid then patchCall patch row else row) rows) =
     map (patchCall patch) (rowsWithId cid rows)"
  by (induction rows) (simp_all add: rowsWithId_def c_id_patchCall)

lemma dateColumn_stable:
  assumes "dateColumn (Some (dateOr rt v (map_option Date old))) = Inr sa"
  shows "dateColumn (Some (dateOr rt v (map_option Date (setColumn sa old)))) = Inr sa"
  using assms
  by (auto simp: dateColumn_def dateOr_def setColumn_def toISOString_def
           split: option.splits if_splits Date.splits)

lemma buildCallPayload_Inr:
  "buildCallPayload p = Inr patch \<longleftrightarrow>
     (\<exists>sa ca. dateColumn (p_startedAt p) = Inr sa \<and> dateColumn (p_completedAt p) = Inr ca \<and>
        patch = \<lparr> b_patient_id = p_patientId p,
                b_prompt_id = p_promptId p,
                b_schedule_id = p_scheduleId p,
                b_phone_number = p_phoneNumber p,
                b_provider_call_id = p_providerCallId p,
                b_status = p_status p,
                b_started_at = sa,
                b_completed_at = ca,
                b_duration = p_duration p,
                b_transcript = p_transcript p,
                b_transcript_entries = p_transcriptEntries p,
                b_artifacts = p_artifacts p,
                b_analysis = p_analysis p \<rparr>)"
  by (auto simp: buildCallPayload_def split: sum.splits)

lemma refresh_patch_stable:
  assumes "buildCallPayload (refreshPayload rt (mapCall r) d) = Inr patch"
  shows "buildCallPayload (refreshPayload rt (mapCall (patchCall patch r)) d) = Inr patch"
proof -
  from assms obtain sa ca where
    sa: "dateColumn (Some (dateOr rt (d_startedAt d) (map_option Date (c_started_at r)))) = Inr sa"
    and ca: "dateColumn (Some (dateOr rt (d_completedAt d) (map_option Date (c_completed_at r)))) = Inr ca"
    and patch: "patch = \<lparr> b_patient_id = None,
                b_prompt_id = None,
                b_schedule_id = None,
                b_phone_number = None,
                b_provider_call_id = None,
                b_status = p_status (refreshPayload rt (mapCall r) d),
                b_started_at = sa,
                b_completed_at = ca,
                b_duration = p_duration (refreshPayload rt (mapCall r) d),
                b_transcript = p_transcript (refreshPayload rt (mapCall r) d),
                b_transcript_entries = p_transcriptEntries (refreshPayload rt (mapCall r) d),
                b_artifacts = p_artifacts (refreshPayload rt (mapCall r) d),
                b_analysis = p_analysis (refreshPayload rt (mapCall r) d) \<rparr>"
    unfolding buildCallPayload_Inr
    by (auto simp: refreshPayload_def emptyPayload_def mapCall_def Let_def)
  have sa': "dateColumn (p_startedAt (refreshPayload rt (mapCall (patchCall patch r)) d)) = Inr sa"
    using dateColumn_stable [OF sa]
    by (simp add: refreshPayload_def emptyPayload_def mapCall_def patchCall_def patch Let_def)
  have ca': "dateColumn (p_completedAt (refreshPayload rt (mapCall (patchCall patch r)) d)) = Inr ca"
    using dateColumn_stable [OF ca]
    by (simp add: refreshPayload_def emptyPayload_def mapCall_def patchCall_def patch Let_def)
  have f1: "p_status (refreshPayload rt (mapCall (patchCall patch r)) d) = b_status patch"
    by (simp add: refreshPayload_def emptyPayload_def patch Let_def)
  have f2: "p_duration (refreshPayload rt (mapCall (patchCall patch r)) d) = b_duration patch"
    by (simp add: refreshPayload_def emptyPayload_def mapCall_def patchCall_def patch Let_def
          setColumn_def split: option.splits)
  have f3: "p_transcript (refreshPayload rt (mapCall (patchCall patch r)) d) = b_transcript patch"
    by (simp add: refreshPayload_def emptyPayload_def mapCall_def patchCall_def patch Let_def
          setColumn_def orElse_idem)
  have f4: "p_transcriptEntries (refreshPayload rt (mapCall (patchCall patch r)) d) =
              b_transcript_entries patch"
    by (simp add: refreshPayload_def emptyPayload_def mapCall_def patchCall_def patch Let_def
          setColumn_def orElse_idem)
  have f5: "p_artifacts (refreshPayload rt (mapCall (patchCall patch r)) d) = b_artifacts patch"
    by (simp add: refreshPayload_def emptyPayload_def mapCall_def patchCall_def patch Let_def
          setColumn_def orElse_idem)
  have f6: "p_analysis (refreshPayload rt (mapCall (patchCall patch r)) d) = b_analysis patch"
    by (simp add: refreshPayload_def emptyPayload_def mapCall_def patchCall_def patch Let_def
          setColumn_def mergeAnalysis_idem)
  have f7: "p_patientId (refreshPayload rt (mapCall (patchCall patch r)) d) = None"
       "p_promptId (refreshPayload rt (mapCall (patchCall patch r)) d) = None"
       "p_scheduleId (refreshPayload rt (mapCall (patchCall patch r)) d) = None"
       "p_phoneNumber (refreshPayload rt (mapCall (patchCall patch r)) d) = None"
       "p_providerCallId (refreshPayload rt (mapCall (patchCall patch r)) d) = None"
    by (simp_all add: refreshPayload_def emptyPayload_def Let_def)
  show ?thesis
    unfolding buildCallPayload_Inr
    using sa' ca' f1 f2 f3 f4 f5 f6 f7 by (simp add: patch)
qed

lemma patchCall_idem: "patchCall patch (patchCall patch row) = patchCall patch row"
  by (simp add: patchCall_def setColumn_def split: option.splits)

lemma dateColumn_roundtrip:
  "dateColumn (Some x) = Inr sa \<Longrightarrow> map_option Date (setColumn sa old) = x"
  by (auto simp: dateColumn_def setColumn_def toISOString_def split: option.splits Date.splits)

lemma repo_getCallById_single:
  "repo_getCallById cid w = Inr (Some l) \<longleftrightarrow> (\<exists>r. rowsWithId cid (vapi_calls w) = [r] \<and> l = mapCall r)"
  by (auto simp: repo_getCallById_def split: list.splits)

text \<open>The run of \<open>refreshCallDetails\<close> when the call is stored once, has a provider id, the
  provider answers with a snapshot and the payload can be written.\<close>

lemma refreshCallDetails_run:
  assumes rows: "rowsWithId cid (vapi_calls w) = [r]"
    and pc: "usableId (c_provider_call_id r) = Some pcid"
    and resp: "getCallResponse pv pcid = Ok d"
    and build: "buildCallPayload (refreshPayload rt (mapCall r) d) = Inr patch"
  shows "refreshCallDetails pv rt cid w =
           (Inr (mapCall (patchCall patch r)),
            w\<lparr> requests := requests w @ [GetCall pcid],
               vapi_calls :=
                 map (\<lambda>row. if c_id row = cid then patchCall patch row else row) (vapi_calls w) \<rparr>)"
proof -
  have l: "repo_getCallById cid w = Inr (Some (mapCall r))"
    using rows by (simp add: repo_getCallById_def)
  have p: "usableId (providerCallId (mapCall r)) = Some pcid"
    using pc by (simp add: mapCall_def)
  show ?thesis
    using rows resp build
    by (simp add: refreshCallDetails_def l p repo_updateCall_def Let_def)
qed

text \<open>A successful run is such a run.\<close>

lemma refreshCallDetails_Inr:
  assumes "refreshCallDetails pv rt cid w = (Inr c, w')"
  shows "\<exists>r pcid d patch.
           rowsWithId cid (vapi_calls w) = [r] \<and>
           usableId (c_provider_call_id r) = Some pcid \<and>
           getCallResponse pv pcid = Ok d \<and>
           buildCallPayload (refreshPayload rt (mapCall r) d) = Inr patch"
proof -
  from assms obtain l where l: "repo_getCallById cid w = Inr (Some l)"
    by (auto simp: refreshCallDetails_def split: sum.splits option.splits)
  then obtain r where r: "rowsWithId cid (vapi_calls w) = [r]" "l = mapCall r"
    by (auto simp: repo_getCallById_single)
  from assms l obtain pcid where pc: "usableId (providerCallId l) = Some pcid"
    by (auto simp: refreshCallDetails_def split: option.splits)
  from assms l pc obtain d where d: "getCallResponse pv pcid = Ok d"
    by (auto simp: refreshCallDetails_def Let_def split: response.splits)
  from assms l pc d have "\<exists>c' w''. repo_updateCall cid (refreshPayload rt l d)
            (w\<lparr> requests := requests w @ [GetCall pcid] \<rparr>) = (Inr c', w'')"
    by (auto simp: refreshCallDetails_def Let_def)
  then obtain patch where "buildCallPayload (refreshPayload rt l d) = Inr patch"
    by (auto simp: repo_updateCall_def split: sum.splits)
  with r pc d show ?thesis
    by (auto simp: mapCall_def)
qed

text \<open>A failed run leaves the stored calls as they were.\<close>

lemma refreshCallDetails_Inl:
  assumes "refreshCallDetails pv rt cid w = (Inl e, w')"
  shows "vapi_calls w' = vapi_calls w"
  using assms
  by (auto simp: refreshCallDetails_def repo_updateCall_def Let_def
           split: sum.splits option.splits response.splits list.splits)

text \<open>The result and the stored calls after a run depend on the state through the stored
  calls only.\<close>

lemma refreshCallDetails_cong:
  assumes "vapi_calls w = vapi_calls v"
  shows "fst (refreshCallDetails pv rt cid w) = fst (refreshCallDetails pv rt cid v) \<and>
         vapi_calls (snd (refreshCallDetails pv rt cid w)) =
           vapi_calls (snd (refreshCallDetails pv rt cid v))"
  using assms
  by (auto simp: refreshCallDetails_def repo_getCallById_def repo_updateCall_def Let_def
           split: sum.splits option.splits response.splits list.splits)

lemma map_patch_idem:
  "map (\<lambda>row. if c_id row = cid then patchCall patch row else row)
     (map (\<lambda>row. if c_id row = cid then patchCall patch row else row) rows) =
   map (\<lambda>row. if c_id row = cid then patchCall patch row else row) rows"
  by (induction rows) (simp_all add: c_id_patchCall patchCall_idem)

lemma provider_id_kept:
  assumes "buildCallPayload (refreshPayload rt l d) = Inr patch"
  shows "c_provider_call_id (patchCall patch r) = c_provider_call_id r"
proof -
  from assms have "b_provider_call_id patch = None"
    unfolding buildCallPayload_Inr by (auto simp: refreshPayload_def emptyPayload_def Let_def)
  then show ?thesis
    by (simp add: patchCall_def setColumn_def)
qed

text \<open>
  C4. Running \<open>refreshCallDetails\<close> a second time against the same provider answers gives
  the same result as the first run, and leaves the stored calls as the first run left
  them: the refresh is idempotent.
\<close>

theorem refreshCallDetails_idempotent:
  assumes first: "refreshCallDetails pv rt cid w = (r1, w1)"
  shows "\<exists>w2. refreshCallDetails pv rt cid w1 = (r1, w2) \<and> vapi_calls w2 = vapi_calls w1"
proof (cases r1)
  case (Inl e)
  with first have same: "vapi_calls w1 = vapi_calls w"
    by (simp add: refreshCallDetails_Inl)
  from refreshCallDetails_cong [OF same, of pv rt cid] first
  have "fst (refreshCallDetails pv rt cid w1) = r1"
    and "vapi_calls (snd (refreshCallDetails pv rt cid w1)) = vapi_calls w1"
    by simp_all
  then show ?thesis
    by (cases "refreshCallDetails pv rt cid w1") simp
next
  case (Inr c)
  with first obtain r pcid d patch where
    rows: "rowsWithId cid (vapi_calls w) = [r]"
    and pc: "usableId (c_provider_call_id r) = Some pcid"
    and resp: "getCallResponse pv pcid = Ok d"
    and build: "buildCallPayload (refreshPayload rt (mapCall r) d) = Inr patch"
    by (blast dest: refreshCallDetails_Inr)
  let ?upd = "\<lambda>row. if c_id row = cid then patchCall patch row else row"
  from refreshCallDetails_run [OF rows pc resp build] first
  have r1: "r1 = Inr (mapCall (patchCall patch r))"
    and w1: "w1 = w\<lparr> requests := requests w @ [GetCall pcid],
                     vapi_calls := map ?upd (vapi_calls w) \<rparr>"
    by simp_all
  have rows1: "rowsWithId cid (vapi_calls w1) = [patchCall patch r]"
    by (simp add: w1 rowsWithId_patch rows)
  have pc1: "usableId (c_provider_call_id (patchCall patch r)) = Some pcid"
    using pc by (simp add: provider_id_kept [OF build])
  have build1: "buildCallPayload (refreshPayload rt (mapCall (patchCall patch r)) d) = Inr patch"
    by (rule refresh_patch_stable [OF build])
  from refreshCallDetails_run [OF rows1 pc1 resp build1]
  have "refreshCallDetails pv rt cid w1 =
          (r1, w1\<lparr> requests := requests w1 @ [GetCall pcid],
                   vapi_calls := map ?upd (vapi_calls w1) \<rparr>)"
    by (simp add: r1 patchCall_idem)
  moreover have vc: "vapi_calls w1 = map ?upd (vapi_calls w)"
    by (simp add: w1)
  moreover have "map ?upd (vapi_calls w1) = vapi_calls w1"
    unfolding vc by (rule map_patch_idem)
  ultimately show ?thesis
    by simp
qed

lemma example_refresh:
  "\<exists>c w1. refreshCallDetails queuedProvider exampleRuntime ''call-2'' exampleWorld = (Inr c, w1) \<and>
     Option.bind (artifacts c) recording = Some ''https://rec/1.wav'' \<and>
     Option.bind (artifacts c) logUrl = Some ''https://log/1'' \<and>
     duration c = Some 42 \<and> startedAt c = Some (Date 1717232700000) \<and>
     Option.bind (analysis c) summary = Some ''stable'' \<and>
     Option.bind (analysis c) structuredData = Some (JObj [(''riskLevel'', JStr ''low'')]) \<and>
     Option.bind (analysis c) successEvaluation = Some (JStr ''pass'') \<and>
     transcriptEntries c =
       Some [\<lparr> role = ''assistant'', message = ''Hello'', time = Some 0 \<rparr>,
             \<lparr> role = ''speaker'', message = ''fine, thanks'', time = None \<rparr>] \<and>
     transcript c = Some (''[0.0s] ASSISTANT: Hello'' @ [CHR 0x0A] @ ''SPEAKER: fine, thanks'')"
  by (simp add: refreshCallDetails_def repo_getCallById_def rowsWithId_def usableId_def
        repo_updateCall_def buildCallPayload_def refreshPayload_def dateColumn_def dateOr_def
        toISOString_def emptyPayload_def mapCall_def patchCall_def setColumn_def
        mergeAnalysis_def orElseJson_def mapApiAnalysis_def mapApiStatusToLocal_def
        toLowerCase_def lowerChar_def
        extractTranscriptFromArtifact_def normalizeTranscriptEntries_def entriesOf_def
        List.map_filter_def toTranscriptEntry_def entryMessage_def entryRole_def orString_def
        formatTranscript_def formatEntry_def asciiUpperCase_def upperChar_def
        example_defs exampleDetails_def exampleRuntime_def Let_def)

theorem refreshCallDetails_idempotent_witness:
  "\<exists>c w1 w2. refreshCallDetails queuedProvider exampleRuntime ''call-2'' exampleWorld = (Inr c, w1) \<and>
     refreshCallDetails queuedProvider exampleRuntime ''call-2'' w1 = (Inr c, w2) \<and>
     vapi_calls w2 = vapi_calls w1 \<and> duration c = Some 42"
proof -
  from example_refresh obtain c w1 where
    first: "refreshCallDetails queuedProvider exampleRuntime ''call-2'' exampleWorld = (Inr c, w1)"
    and dur: "duration c = Some 42"
    by blast
  from refreshCallDetails_idempotent [OF first] obtain w2 where
    "refreshCallDetails queuedProvider exampleRuntime ''call-2'' w1 = (Inr c, w2)"
    "vapi_calls w2 = vapi_calls w1"
    by blast
  with first dur show ?thesis
    by blast
qed

text \<open>The fields of the call that a successful \<open>refreshCallDetails\<close> returns and stores.\<close>

lemma refreshCallDetails_fields:
  assumes loc: "repo_getCallById cid w = Inr (Some l)"
    and pc: "usableId (providerCallId l) = Some pcid"
    and resp: "getCallResponse pv pcid = Ok d"
    and run: "refreshCallDetails pv rt cid w = (Inr c, w')"
  shows "repo_getCallById cid w' = Inr (Some c)"
    and "startedAt c = dateOr rt (d_startedAt d) (startedAt l)"
    and "completedAt c = dateOr rt (d_completedAt d) (completedAt l)"
    and "duration c = orElse (d_duration d) (duration l)"
    and "transcriptEntries c =
           orElse (entries (extractTranscriptFromArtifact rt (d_artifact d))) (transcriptEntries l)"
    and "transcript c =
           orElse (formatted (extractTranscriptFromArtifact rt (d_artifact d))) (transcript l)"
    and "artifacts c = Some
                 \<lparr> recording =
                     orElse (Option.bind (d_artifact d) a_recording)
                            (Option.bind (artifacts l) recording),
                   logUrl =
                     orElse (Option.bind (d_artifact d) a_logUrl)
                            (Option.bind (artifacts l) logUrl),
                   transcriptUrl =
                     orElse (Option.bind (d_artifact d) a_transcriptUrl)
                            (Option.bind (artifacts l) transcriptUrl) \<rparr>"
    and "analysis c = mergeAnalysis (analysis l) (mapApiAnalysis (d_analysis d))"
proof -
  from loc obtain r where rows: "rowsWithId cid (vapi_calls w) = [r]" and l: "l = mapCall r"
    by (auto simp: repo_getCallById_single)
  from pc l have pc': "usableId (c_provider_call_id r) = Some pcid"
    by (simp add: mapCall_def)
  from run loc pc resp have "\<exists>c' w''. repo_updateCall cid (refreshPayload rt l d)
            (w\<lparr> requests := requests w @ [GetCall pcid] \<rparr>) = (Inr c', w'')"
    by (auto simp: refreshCallDetails_def Let_def)
  then obtain patch where build: "buildCallPayload (refreshPayload rt (mapCall r) d) = Inr patch"
    by (auto simp: repo_updateCall_def l split: sum.splits)
  let ?upd = "\<lambda>row. if c_id row = cid then patchCall patch row else row"
  from refreshCallDetails_run [OF rows pc' resp build] run
  have c: "c = mapCall (patchCall patch r)"
    and w': "w' = w\<lparr> requests := requests w @ [GetCall pcid],
                     vapi_calls := map ?upd (vapi_calls w) \<rparr>"
    by simp_all
  from build obtain sa ca where
    sa: "dateColumn (p_startedAt (refreshPayload rt (mapCall r) d)) = Inr sa"
    and ca: "dateColumn (p_completedAt (refreshPayload rt (mapCall r) d)) = Inr ca"
    and patch: "patch = \<lparr> b_patient_id = p_patientId (refreshPayload rt (mapCall r) d),
                b_prompt_id = p_promptId (refreshPayload rt (mapCall r) d),
                b_schedule_id = p_scheduleId (refreshPayload rt (mapCall r) d),
                b_phone_number = p_phoneNumber (refreshPayload rt (mapCall r) d),
                b_provider_call_id = p_providerCallId (refreshPayload rt (mapCall r) d),
                b_status = p_status (refreshPayload rt (mapCall r) d),
                b_started_at = sa,
                b_completed_at = ca,
                b_duration = p_duration (refreshPayload rt (mapCall r) d),
                b_transcript = p_transcript (refreshPayload rt (mapCall r) d),
                b_transcript_entries = p_transcriptEntries (refreshPayload rt (mapCall r) d),
                b_artifacts = p_artifacts (refreshPayload rt (mapCall r) d),
                b_analysis = p_analysis (refreshPayload rt (mapCall r) d) \<rparr>"
    unfolding buildCallPayload_Inr by blast
  show "repo_getCallById cid w' = Inr (Some c)"
    by (simp add: repo_getCallById_def w' rowsWithId_patch rows c)
  have sa': "dateColumn (Some (dateOr rt (d_startedAt d) (startedAt l))) = Inr sa"
    using sa by (simp add: refreshPayload_def emptyPayload_def Let_def l)
  have ca': "dateColumn (Some (dateOr rt (d_completedAt d) (completedAt l))) = Inr ca"
    using ca by (simp add: refreshPayload_def emptyPayload_def Let_def l)
  show "startedAt c = dateOr rt (d_startedAt d) (startedAt l)"
    using dateColumn_roundtrip [OF sa', of "c_started_at r"]
    by (simp add: c mapCall_def patchCall_def patch)
  show "completedAt c = dateOr rt (d_completedAt d) (completedAt l)"
    using dateColumn_roundtrip [OF ca', of "c_completed_at r"]
    by (simp add: c mapCall_def patchCall_def patch)
  show "duration c = orElse (d_duration d) (duration l)"
    by (simp add: c l mapCall_def patchCall_def patch setColumn_def refreshPayload_def
          emptyPayload_def Let_def split: option.splits)
  show "transcriptEntries c =
           orElse (entries (extractTranscriptFromArtifact rt (d_artifact d))) (transcriptEntries l)"
    by (simp add: c l mapCall_def patchCall_def patch setColumn_def refreshPayload_def
          emptyPayload_def Let_def)
  show "transcript c =
           orElse (formatted (extractTranscriptFromArtifact rt (d_artifact d))) (transcript l)"
    by (simp add: c l mapCall_def patchCall_def patch setColumn_def refreshPayload_def
          emptyPayload_def Let_def)
  show "artifacts c = Some
                 \<lparr> recording =
                     orElse (Option.bind (d_artifact d) a_recording)
                            (Option.bind (artifacts l) recording),
                   logUrl =
                     orElse (Option.bind (d_artifact d) a_logUrl)
                            (Option.bind (artifacts l) logUrl),
                   transcriptUrl =
                     orElse (Option.bind (d_artifact d) a_transcriptUrl)
                            (Option.bind (artifacts l) transcriptUrl) \<rparr>"
    by (simp add: c l mapCall_def patchCall_def patch setColumn_def refreshPayload_def
          emptyPayload_def Let_def)
  show "analysis c = mergeAnalysis (analysis l) (mapApiAnalysis (d_analysis d))"
    by (simp add: c l mapCall_def patchCall_def patch setColumn_def refreshPayload_def
          emptyPayload_def Let_def)
qed

text \<open>
  C5. After a successful \<open>refreshCallDetails\<close> the stored call, which is the call returned,
  has for each optional field the value of the snapshot when the snapshot has one and the
  value stored before otherwise. \<open>startedAt\<close> and \<open>completedAt\<close>: the date of the snapshot's
  string when that string is not empty. \<open>duration\<close>: the snapshot's number. Transcript
  entries: the entries normalised from the first of \<open>artifact.transcript\<close>,
  \<open>artifact.messages\<close> and \<open>artifact.messagesOpenAIFormatted\<close> that yields any; in
  particular, when \<open>artifact.transcript\<close> is an array with an entry that converts, the
  converted entries of that array, and when none of the three yields entries (or there is
  no artifact) the stored entries. The three artifact fields and the summary: the
  snapshot's string. Structured data and success evaluation: the snapshot's value unless
  it is absent or \<open>null\<close>. A snapshot without \<open>artifact.recording\<close> leaves the stored
  recording URL in place.
\<close>

theorem refreshCallDetails_merge:
  assumes loc: "repo_getCallById cid w = Inr (Some l)"
    and pc: "usableId (providerCallId l) = Some pcid"
    and resp: "getCallResponse pv pcid = Ok d"
    and run: "refreshCallDetails pv rt cid w = (Inr c, w')"
  shows "repo_getCallById cid w' = Inr (Some c) \<and>
         startedAt c =
           (case d_startedAt d of
              Some s \<Rightarrow> if s = [] then startedAt l else Some (newDate rt s)
            | None \<Rightarrow> startedAt l) \<and>
         completedAt c =
           (case d_completedAt d of
              Some s \<Rightarrow> if s = [] then completedAt l else Some (newDate rt s)
            | None \<Rightarrow> completedAt l) \<and>
         duration c = orElse (d_duration d) (duration l) \<and>
         transcriptEntries c =
           (case d_artifact d of
              None \<Rightarrow> transcriptEntries l
            | Some a \<Rightarrow>
                orElse (normalizeTranscriptEntries rt (a_transcript a))
                  (orElse (normalizeTranscriptEntries rt (a_messages a))
                     (orElse (normalizeTranscriptEntries rt (a_messagesOpenAIFormatted a))
                             (transcriptEntries l)))) \<and>
         (\<forall>a xs. d_artifact d = Some a \<and> a_transcript a = Some (JArr xs) \<and>
                 List.map_filter (\<lambda>e. toTranscriptEntry rt (Some e)) xs \<noteq> [] \<longrightarrow>
                 transcriptEntries c =
                   Some (List.map_filter (\<lambda>e. toTranscriptEntry rt (Some e)) xs)) \<and>
         (\<forall>a xs. d_artifact d = Some a \<and> normalizeTranscriptEntries rt (a_transcript a) = None \<and>
                 a_messages a = Some (JArr xs) \<and>
                 List.map_filter (\<lambda>e. toTranscriptEntry rt (Some e)) xs \<noteq> [] \<longrightarrow>
                 transcriptEntries c =
                   Some (List.map_filter (\<lambda>e. toTranscriptEntry rt (Some e)) xs)) \<and>
         (\<forall>a. d_artifact d = Some a \<and> normalizeTranscriptEntries rt (a_transcript a) = None \<and>
               normalizeTranscriptEntries rt (a_messages a) = None \<and>
               normalizeTranscriptEntries rt (a_messagesOpenAIFormatted a) = None \<longrightarrow>
               transcriptEntries c = transcriptEntries l) \<and>
         Option.bind (artifacts c) recording =
           orElse (Option.bind (d_artifact d) a_recording) (Option.bind (artifacts l) recording) \<and>
         Option.bind (artifacts c) logUrl =
           orElse (Option.bind (d_artifact d) a_logUrl) (Option.bind (artifacts l) logUrl) \<and>
         Option.bind (artifacts c) transcriptUrl =
           orElse (Option.bind (d_artifact d) a_transcriptUrl)
                  (Option.bind (artifacts l) transcriptUrl) \<and>
         Option.bind (analysis c) summary =
           orElse (Option.bind (d_analysis d) r_summary) (Option.bind (analysis l) summary) \<and>
         Option.bind (analysis c) structuredData =
           (case Option.bind (d_analysis d) r_structuredData of
              None \<Rightarrow> Option.bind (analysis l) structuredData
            | Some JNull \<Rightarrow> Option.bind (analysis l) structuredData
            | Some v \<Rightarrow> Some v) \<and>
         Option.bind (analysis c) successEvaluation =
           (case Option.bind (d_analysis d) r_successEvaluation of
              None \<Rightarrow> Option.bind (analysis l) successEvaluation
            | Some JNull \<Rightarrow> Option.bind (analysis l) successEvaluation
            | Some v \<Rightarrow> Some v) \<and>
         (Option.bind (d_artifact d) a_recording = None \<longrightarrow>
            Option.bind (artifacts c) recording = Option.bind (artifacts l) recording)"
proof -
  note f = refreshCallDetails_fields [OF loc pc resp run]
  have ents: "transcriptEntries c =
           (case d_artifact d of
              None \<Rightarrow> transcriptEntries l
            | Some a \<Rightarrow>
                orElse (normalizeTranscriptEntries rt (a_transcript a))
                  (orElse (normalizeTranscriptEntries rt (a_messages a))
                     (orElse (normalizeTranscriptEntries rt (a_messagesOpenAIFormatted a))
                             (transcriptEntries l))))"
    unfolding f(5) entries_extract by (simp add: orElse_assoc split: option.splits)
  have e1: "\<forall>a xs. d_artifact d = Some a \<and> a_transcript a = Some (JArr xs) \<and>
                 List.map_filter (\<lambda>e. toTranscriptEntry rt (Some e)) xs \<noteq> [] \<longrightarrow>
                 transcriptEntries c =
                   Some (List.map_filter (\<lambda>e. toTranscriptEntry rt (Some e)) xs)"
    unfolding ents by (auto simp: normalizeTranscriptEntries_array entriesOf_def)
  have e2: "\<forall>a xs. d_artifact d = Some a \<and> normalizeTranscriptEntries rt (a_transcript a) = None \<and>
                 a_messages a = Some (JArr xs) \<and>
                 List.map_filter (\<lambda>e. toTranscriptEntry rt (Some e)) xs \<noteq> [] \<longrightarrow>
                 transcriptEntries c =
                   Some (List.map_filter (\<lambda>e. toTranscriptEntry rt (Some e)) xs)"
    unfolding ents by (auto simp: normalizeTranscriptEntries_array entriesOf_def)
  have e3: "\<forall>a. d_artifact d = Some a \<and> normalizeTranscriptEntries rt (a_transcript a) = None \<and>
               normalizeTranscriptEntries rt (a_messages a) = None \<and>
               normalizeTranscriptEntries rt (a_messagesOpenAIFormatted a) = None \<longrightarrow>
               transcriptEntries c = transcriptEntries l"
    unfolding ents by auto
  have ana1: "Option.bind (analysis c) summary =
           orElse (Option.bind (d_analysis d) r_summary) (Option.bind (analysis l) summary)"
    unfolding f(8)
    by (cases "analysis l"; cases "d_analysis d") (simp_all add: mergeAnalysis_def mapApiAnalysis_def)
  have nj: "\<And>x y. orElseJson x y = (case x of None \<Rightarrow> y | Some JNull \<Rightarrow> y | Some v \<Rightarrow> Some v)"
    by (simp add: orElseJson_def split: option.splits json.splits)
  have ana2: "Option.bind (analysis c) structuredData =
           orElseJson (Option.bind (d_analysis d) r_structuredData)
                  (Option.bind (analysis l) structuredData)"
    unfolding f(8)
    by (cases "analysis l"; cases "d_analysis d")
       (simp_all add: mergeAnalysis_def mapApiAnalysis_def orElseJson_def)
  have ana3: "Option.bind (analysis c) successEvaluation =
           orElseJson (Option.bind (d_analysis d) r_successEvaluation)
                  (Option.bind (analysis l) successEvaluation)"
    unfolding f(8)
    by (cases "analysis l"; cases "d_analysis d")
       (simp_all add: mergeAnalysis_def mapApiAnalysis_def orElseJson_def)
  have started: "startedAt c =
           (case d_startedAt d of
              Some s \<Rightarrow> if s = [] then startedAt l else Some (newDate rt s)
            | None \<Rightarrow> startedAt l)"
    unfolding f(2) by (simp add: dateOr_def split: option.splits)
  have completed: "completedAt c =
           (case d_completedAt d of
              Some s \<Rightarrow> if s = [] then completedAt l else Some (newDate rt s)
            | None \<Rightarrow> completedAt l)"
    unfolding f(3) by (simp add: dateOr_def split: option.splits)
  have a1: "Option.bind (artifacts c) recording =
           orElse (Option.bind (d_artifact d) a_recording) (Option.bind (artifacts l) recording)"
    and a2: "Option.bind (artifacts c) logUrl =
           orElse (Option.bind (d_artifact d) a_logUrl) (Option.bind (artifacts l) logUrl)"
    and a3: "Option.bind (artifacts c) transcriptUrl =
           orElse (Option.bind (d_artifact d) a_transcriptUrl)
                  (Option.bind (artifacts l) transcriptUrl)"
    by (simp_all add: f(7))
  have keep: "Option.bind (d_artifact d) a_recording = None \<longrightarrow>
            Option.bind (artifacts c) recording = Option.bind (artifacts l) recording"
    by (simp add: a1)
  show ?thesis
    using f(1) started completed f(4) ents e1 e2 e3 a1 a2 a3 ana1
      ana2 [unfolded nj] ana3 [unfolded nj] keep
    by blast
qed

theorem refreshCallDetails_merge_witness:
  "\<exists>c w'. refreshCallDetails queuedProvider exampleRuntime ''call-2'' exampleWorld = (Inr c, w') \<and>
     a_recording (the (d_artifact exampleDetails)) = None \<and>
     Option.bind (artifacts c) recording = Some ''https://rec/1.wav'' \<and>
     Option.bind (artifacts c) logUrl = Some ''https://log/1'' \<and>
     duration c = Some 42 \<and>
     transcriptEntries c =
       Some [\<lparr> role = ''assistant'', message = ''Hello'', time = Some 0 \<rparr>,
             \<lparr> role = ''speaker'', message = ''fine, thanks'', time = None \<rparr>] \<and>
     Option.bind (analysis c) structuredData = Some (JObj [(''riskLevel'', JStr ''low'')]) \<and>
     Option.bind (analysis c) successEvaluation = Some (JStr ''pass'')"
proof -
  from example_refresh obtain c w1 where
    run: "refreshCallDetails queuedProvider exampleRuntime ''call-2'' exampleWorld = (Inr c, w1)"
    by blast
  have loc: "repo_getCallById ''call-2'' exampleWorld = Inr (Some (mapCall acceptedCallRow))"
    by (simp add: repo_getCallById_def rowsWithId_def example_defs)
  have pc: "usableId (providerCallId (mapCall acceptedCallRow)) = Some ''prov-123''"
    by (simp add: usableId_def mapCall_def example_defs)
  have resp: "getCallResponse queuedProvider ''prov-123'' = Ok exampleDetails"
    by (simp add: example_defs)
  note m = refreshCallDetails_merge [OF loc pc resp run]
  from m have rec: "Option.bind (artifacts c) recording =
           orElse (Option.bind (d_artifact exampleDetails) a_recording)
                  (Option.bind (artifacts (mapCall acceptedCallRow)) recording)"
    by blast
  from m have log: "Option.bind (artifacts c) logUrl =
           orElse (Option.bind (d_artifact exampleDetails) a_logUrl)
                  (Option.bind (artifacts (mapCall acceptedCallRow)) logUrl)"
    by blast
  from m have dur: "duration c = orElse (d_duration exampleDetails) (duration (mapCall acceptedCallRow))"
    by blast
  from m have ents: "\<forall>a xs. d_artifact exampleDetails = Some a \<and>
                 normalizeTranscriptEntries exampleRuntime (a_transcript a) = None \<and>
                 a_messages a = Some (JArr xs) \<and>
                 List.map_filter (\<lambda>e. toTranscriptEntry exampleRuntime (Some e)) xs \<noteq> [] \<longrightarrow>
                 transcriptEntries c =
                   Some (List.map_filter (\<lambda>e. toTranscriptEntry exampleRuntime (Some e)) xs)"
    by blast
  from m have sd: "Option.bind (analysis c) structuredData =
           (case Option.bind (d_analysis exampleDetails) r_structuredData of
              None \<Rightarrow> Option.bind (analysis (mapCall acceptedCallRow)) structuredData
            | Some JNull \<Rightarrow> Option.bind (analysis (mapCall acceptedCallRow)) structuredData
            | Some v \<Rightarrow> Some v)"
    by blast
  from m have se: "Option.bind (analysis c) successEvaluation =
           (case Option.bind (d_analysis exampleDetails) r_successEvaluation of
              None \<Rightarrow> Option.bind (analysis (mapCall acceptedCallRow)) successEvaluation
            | Some JNull \<Rightarrow> Option.bind (analysis (mapCall acceptedCallRow)) successEvaluation
            | Some v \<Rightarrow> Some v)"
    by blast
  have r1: "Option.bind (artifacts c) recording = Some ''https://rec/1.wav''"
    unfolding rec by (simp add: exampleDetails_def mapCall_def example_defs)
  have r2: "Option.bind (artifacts c) logUrl = Some ''https://log/1''"
    unfolding log by (simp add: exampleDetails_def mapCall_def example_defs)
  have r3: "duration c = Some 42"
    unfolding dur by (simp add: exampleDetails_def)
  have r4: "a_recording (the (d_artifact exampleDetails)) = None"
    by (simp add: exampleDetails_def)
  have conv: "List.map_filter (\<lambda>e. toTranscriptEntry exampleRuntime (Some e))
                [JObj [(''role'', JStr ''assistant''), (''message'', JStr ''Hello''),
                       (''time'', JNum 0)],
                 JObj [(''role'', JStr ''system'')],
                 JStr ''fine, thanks''] =
              [\<lparr> role = ''assistant'', message = ''Hello'', time = Some 0 \<rparr>,
               \<lparr> role = ''speaker'', message = ''fine, thanks'', time = None \<rparr>]"
    by (simp add: List.map_filter_def toTranscriptEntry_def entryMessage_def entryRole_def
          orString_def)
  have plain: "normalizeTranscriptEntries exampleRuntime (Some (JStr ''AI: Hello'')) = None"
    by (simp add: normalizeTranscriptEntries_def)
  have art: "d_artifact exampleDetails = Some (the (d_artifact exampleDetails))"
    by (simp add: exampleDetails_def)
  have plain': "normalizeTranscriptEntries exampleRuntime
                  (a_transcript (the (d_artifact exampleDetails))) = None"
    by (simp add: exampleDetails_def plain)
  have msgs: "a_messages (the (d_artifact exampleDetails)) =
                Some (JArr [JObj [(''role'', JStr ''assistant''), (''message'', JStr ''Hello''),
                                  (''time'', JNum 0)],
                            JObj [(''role'', JStr ''system'')],
                            JStr ''fine, thanks''])"
    by (simp add: exampleDetails_def)
  have ne: "List.map_filter (\<lambda>e. toTranscriptEntry exampleRuntime (Some e))
                [JObj [(''role'', JStr ''assistant''), (''message'', JStr ''Hello''),
                       (''time'', JNum 0)],
                 JObj [(''role'', JStr ''system'')],
                 JStr ''fine, thanks''] \<noteq> []"
    unfolding conv by simp
  from ents art plain' msgs ne
  have "transcriptEntries c =
          Some (List.map_filter (\<lambda>e. toTranscriptEntry exampleRuntime (Some e))
                [JObj [(''role'', JStr ''assistant''), (''message'', JStr ''Hello''),
                       (''time'', JNum 0)],
                 JObj [(''role'', JStr ''system'')],
                 JStr ''fine, thanks''])"
    by blast
  then have r5: "transcriptEntries c =
       Some [\<lparr> role = ''assistant'', message = ''Hello'', time = Some 0 \<rparr>,
             \<lparr> role = ''speaker'', message = ''fine, thanks'', time = None \<rparr>]"
    unfolding conv .
  have r6: "Option.bind (analysis c) structuredData = Some (JObj [(''riskLevel'', JStr ''low'')])"
    unfolding sd by (simp add: exampleDetails_def)
  have r7: "Option.bind (analysis c) successEvaluation = Some (JStr ''pass'')"
    unfolding se by (simp add: exampleDetails_def mapCall_def example_defs)
  from run r1 r2 r3 r4 r5 r6 r7 show ?thesis
    by blast
qed

subsection \<open>Transcripts\<close>

text \<open>
  C9. \<open>normalizeTranscriptEntries\<close> turns a provider transcript payload into entries as
  follows: an array becomes the list of the entries that \<open>toTranscriptEntry\<close> converts, in
  order; an object is searched under \<open>entries\<close>, \<open>messages\<close>, \<open>transcript\<close> and \<open>items\<close>, in
  this order, for the first array with an entry that converts; any other payload, and a
  payload of which no entry converts, gives nothing. \<open>extractTranscriptFromArtifact\<close>
  takes the first of \<open>artifact.transcript\<close>, \<open>artifact.messages\<close> and
  \<open>artifact.messagesOpenAIFormatted\<close> that gives entries. A plain string becomes an entry
  of role "speaker"; an object becomes an entry whose role is its \<open>role\<close> or \<open>speaker\<close>
  string (else "speaker"), whose message is its \<open>message\<close>, \<open>content\<close> or \<open>text\<close> string, or
  else the text extracted from these values (for instance the text inside a nested
  \<open>content\<close> object), and whose time is its \<open>time\<close> number if it has one. An entry without
  message text is dropped, as is one that is neither a string nor an object, so every
  kept entry has a message. \<open>formatTranscript\<close> renders each entry as
  \<open>[<time>s] ROLE: message\<close> (no bracket without a time, SPEAKER without a role) and joins
  the lines with newlines; the transcript that \<open>refreshCallDetails\<close> stores is this string
  when entries were extracted and the stored transcript otherwise.
\<close>

theorem transcript_normalisation:
  "normalizeTranscriptEntries rt (Some (JArr xs)) =
     (let es = List.map_filter (\<lambda>e. toTranscriptEntry rt (Some e)) xs
      in if es = [] then None else Some es) \<and>
   normalizeTranscriptEntries rt (Some (JObj fs)) =
     (let conv = (\<lambda>v. case v of
                        Some (JArr ys) \<Rightarrow>
                          (let es = List.map_filter (\<lambda>e. toTranscriptEntry rt (Some e)) ys
                           in if es = [] then None else Some es)
                      | _ \<Rightarrow> None)
      in orElse (conv (map_of fs ''entries''))
           (orElse (conv (map_of fs ''messages''))
              (orElse (conv (map_of fs ''transcript'')) (conv (map_of fs ''items''))))) \<and>
   normalizeTranscriptEntries rt None = None \<and>
   normalizeTranscriptEntries rt (Some JNull) = None \<and>
   normalizeTranscriptEntries rt (Some (JBool b)) = None \<and>
   normalizeTranscriptEntries rt (Some (JNum x)) = None \<and>
   normalizeTranscriptEntries rt (Some (JStr s)) = None \<and>
   entries (extractTranscriptFromArtifact rt None) = None \<and>
   entries (extractTranscriptFromArtifact rt (Some a)) =
     orElse (normalizeTranscriptEntries rt (a_transcript a))
       (orElse (normalizeTranscriptEntries rt (a_messages a))
               (normalizeTranscriptEntries rt (a_messagesOpenAIFormatted a))) \<and>
   formatted (extractTranscriptFromArtifact rt art) =
     formatTranscript rt (entries (extractTranscriptFromArtifact rt art)) \<and>
   (\<forall>e t. toTranscriptEntry rt e = Some t \<longrightarrow> message t \<noteq> []) \<and>
   toTranscriptEntry rt None = None \<and>
   toTranscriptEntry rt (Some JNull) = None \<and>
   toTranscriptEntry rt (Some (JBool b)) = None \<and>
   toTranscriptEntry rt (Some (JNum x)) = None \<and>
   toTranscriptEntry rt (Some (JArr xs)) = None \<and>
   toTranscriptEntry rt (Some (JStr s)) =
     (if s = [] then None else Some \<lparr> role = ''speaker'', message = s, time = None \<rparr>) \<and>
   toTranscriptEntry rt (Some (JObj fs)) =
     (if entryMessage rt (JObj fs) = [] then None
      else Some \<lparr> role = entryRole (JObj fs), message = entryMessage rt (JObj fs),
                   time = asNumber (map_of fs ''time'') \<rparr>) \<and>
   (asString (map_of fs ''role'') = Some r \<longrightarrow> entryRole (JObj fs) = r) \<and>
   (asString (map_of fs ''role'') = None \<and> asString (map_of fs ''speaker'') = Some r \<longrightarrow>
      entryRole (JObj fs) = r) \<and>
   (asString (map_of fs ''role'') = None \<and> asString (map_of fs ''speaker'') = None \<longrightarrow>
      entryRole (JObj fs) = ''speaker'') \<and>
   (asString (map_of fs ''message'') = Some m \<longrightarrow> entryMessage rt (JObj fs) = m) \<and>
   (asString (map_of fs ''message'') = None \<and> asString (map_of fs ''content'') = Some m \<longrightarrow>
      entryMessage rt (JObj fs) = m) \<and>
   (asString (map_of fs ''message'') = None \<and> asString (map_of fs ''content'') = None \<and>
    asString (map_of fs ''text'') = Some m \<longrightarrow> entryMessage rt (JObj fs) = m) \<and>
   (asString (map_of fs ''message'') = None \<and> asString (map_of fs ''content'') = None \<and>
    asString (map_of fs ''text'') = None \<longrightarrow>
      entryMessage rt (JObj fs) =
        orString (extractTextFromAny rt (map_of fs ''message''))
          (orString (extractTextFromAny rt (map_of fs ''content''))
             (extractTextFromAny rt (map_of fs ''text'')))) \<and>
   (map_of fs ''message'' = None \<and> map_of fs ''text'' = None \<and>
    map_of fs ''content'' = Some (JObj cs) \<and> asString (map_of cs ''text'') = Some m \<longrightarrow>
      entryMessage rt (JObj fs) = m) \<and>
   extractTextFromAny rt (Some (JArr xs)) =
     stringTrim rt
       (join '' '' (filter (\<lambda>t. t \<noteq> []) (map (\<lambda>item. extractTextFromAny rt (Some item)) xs))) \<and>
   extractTextFromAny rt (Some (JObj cs)) =
     (case asString (map_of cs ''text'') of
        Some t \<Rightarrow> t
      | None \<Rightarrow>
     (case asString (map_of cs ''message'') of
        Some t \<Rightarrow> t
      | None \<Rightarrow>
     (case asString (map_of cs ''content'') of
        Some t \<Rightarrow> t
      | None \<Rightarrow>
          if truthy (map_of cs ''content'') then extractTextFromAny rt (map_of cs ''content'')
          else if truthy (map_of cs ''message'') then extractTextFromAny rt (map_of cs ''message'')
          else []))) \<and>
   extractTextFromAny rt (Some (JStr s)) = s \<and>
   extractTextFromAny rt (Some (JNum x)) = numberToString rt x \<and>
   extractTextFromAny rt (Some (JBool b)) = (if b then ''true'' else ''false'') \<and>
   extractTextFromAny rt (Some JNull) = [] \<and>
   extractTextFromAny rt None = [] \<and>
   formatTranscript rt None = None \<and>
   formatTranscript rt (Some []) = None \<and>
   (es \<noteq> [] \<longrightarrow> formatTranscript rt (Some es) = Some (join [CHR 0x0A] (map (formatEntry rt) es))) \<and>
   formatEntry rt \<lparr> role = r', message = m', time = Some x \<rparr> =
     ''['' @ toFixed1 rt x @ ''s] '' @
       (if r' = [] then ''SPEAKER'' else stringToUpperCase rt r') @ '': '' @ m' \<and>
   formatEntry rt \<lparr> role = r', message = m', time = None \<rparr> =
     (if r' = [] then ''SPEAKER'' else stringToUpperCase rt r') @ '': '' @ m' \<and>
   p_transcript (refreshPayload rt l d) =
     Some (case entries (extractTranscriptFromArtifact rt (d_artifact d)) of
             None \<Rightarrow> transcript l
           | Some es' \<Rightarrow> Some (join [CHR 0x0A] (map (formatEntry rt) es'))) \<and>
   (repo_getCallById cid w = Inr (Some l) \<and> usableId (providerCallId l) = Some pcid \<and>
    getCallResponse pv pcid = Ok d \<and> refreshCallDetails pv rt cid w = (Inr c, w') \<longrightarrow>
      repo_getCallById cid w' = Inr (Some c) \<and>
      transcript c =
        (case entries (extractTranscriptFromArtifact rt (d_artifact d)) of
           None \<Rightarrow> transcript l
         | Some es' \<Rightarrow> Some (join [CHR 0x0A] (map (formatEntry rt) es'))))"
proof (intro conjI)
  show "normalizeTranscriptEntries rt (Some (JArr xs)) =
     (let es = List.map_filter (\<lambda>e. toTranscriptEntry rt (Some e)) xs
      in if es = [] then None else Some es)"
    by (simp add: normalizeTranscriptEntries_array entriesOf_def Let_def)
  show "normalizeTranscriptEntries rt (Some (JObj fs)) =
     (let conv = (\<lambda>v. case v of
                        Some (JArr ys) \<Rightarrow>
                          (let es = List.map_filter (\<lambda>e. toTranscriptEntry rt (Some e)) ys
                           in if es = [] then None else Some es)
                      | _ \<Rightarrow> None)
      in orElse (conv (map_of fs ''entries''))
           (orElse (conv (map_of fs ''messages''))
              (orElse (conv (map_of fs ''transcript'')) (conv (map_of fs ''items'')))))"
    unfolding normalizeTranscriptEntries_object entriesOf_def Let_def by (rule refl)
  show "normalizeTranscriptEntries rt None = None"
    by (simp add: normalizeTranscriptEntries_def)
  show "normalizeTranscriptEntries rt (Some JNull) = None"
    by (simp add: normalizeTranscriptEntries_def)
  show "normalizeTranscriptEntries rt (Some (JBool b)) = None"
    by (simp add: normalizeTranscriptEntries_def)
  show "normalizeTranscriptEntries rt (Some (JNum x)) = None"
    by (simp add: normalizeTranscriptEntries_def)
  show "normalizeTranscriptEntries rt (Some (JStr s)) = None"
    by (simp add: normalizeTranscriptEntries_def)
  show "entries (extractTranscriptFromArtifact rt None) = None"
    by (simp add: entries_extract)
  show "entries (extractTranscriptFromArtifact rt (Some a)) =
     orElse (normalizeTranscriptEntries rt (a_transcript a))
       (orElse (normalizeTranscriptEntries rt (a_messages a))
               (normalizeTranscriptEntries rt (a_messagesOpenAIFormatted a)))"
    by (simp add: entries_extract)
  show "formatted (extractTranscriptFromArtifact rt art) =
     formatTranscript rt (entries (extractTranscriptFromArtifact rt art))"
    by (rule formatted_is_formatTranscript)
  show "\<forall>e t. toTranscriptEntry rt e = Some t \<longrightarrow> message t \<noteq> []"
    by (blast dest: toTranscriptEntry_message)
  show "toTranscriptEntry rt None = None"
    by (simp add: toTranscriptEntry_def)
  show "toTranscriptEntry rt (Some JNull) = None"
    by (simp add: toTranscriptEntry_def)
  show "toTranscriptEntry rt (Some (JBool b)) = None"
    by (simp add: toTranscriptEntry_def)
  show "toTranscriptEntry rt (Some (JNum x)) = None"
    by (simp add: toTranscriptEntry_def)
  show "toTranscriptEntry rt (Some (JArr xs)) = None"
    by (simp add: toTranscriptEntry_def entryMessage_def orString_def)
  show "toTranscriptEntry rt (Some (JStr s)) =
     (if s = [] then None else Some \<lparr> role = ''speaker'', message = s, time = None \<rparr>)"
    by (simp add: toTranscriptEntry_def)
  show "toTranscriptEntry rt (Some (JObj fs)) =
     (if entryMessage rt (JObj fs) = [] then None
      else Some \<lparr> role = entryRole (JObj fs), message = entryMessage rt (JObj fs),
                   time = asNumber (map_of fs ''time'') \<rparr>)"
    by (simp add: toTranscriptEntry_def)
  show "asString (map_of fs ''role'') = Some r \<longrightarrow> entryRole (JObj fs) = r"
    by (simp add: entryRole_def)
  show "asString (map_of fs ''role'') = None \<and> asString (map_of fs ''speaker'') = Some r \<longrightarrow>
      entryRole (JObj fs) = r"
    by (simp add: entryRole_def)
  show "asString (map_of fs ''role'') = None \<and> asString (map_of fs ''speaker'') = None \<longrightarrow>
      entryRole (JObj fs) = ''speaker''"
    by (simp add: entryRole_def)
  show "asString (map_of fs ''message'') = Some m \<longrightarrow> entryMessage rt (JObj fs) = m"
    by (simp add: entryMessage_def)
  show "asString (map_of fs ''message'') = None \<and> asString (map_of fs ''content'') = Some m \<longrightarrow>
      entryMessage rt (JObj fs) = m"
    by (simp add: entryMessage_def)
  show "asString (map_of fs ''message'') = None \<and> asString (map_of fs ''content'') = None \<and>
    asString (map_of fs ''text'') = Some m \<longrightarrow> entryMessage rt (JObj fs) = m"
    by (simp add: entryMessage_def)
  show "asString (map_of fs ''message'') = None \<and> asString (map_of fs ''content'') = None \<and>
    asString (map_of fs ''text'') = None \<longrightarrow>
      entryMessage rt (JObj fs) =
        orString (extractTextFromAny rt (map_of fs ''message''))
          (orString (extractTextFromAny rt (map_of fs ''content''))
             (extractTextFromAny rt (map_of fs ''text'')))"
    by (simp add: entryMessage_def)
  show "map_of fs ''message'' = None \<and> map_of fs ''text'' = None \<and>
    map_of fs ''content'' = Some (JObj cs) \<and> asString (map_of cs ''text'') = Some m \<longrightarrow>
      entryMessage rt (JObj fs) = m"
    by (simp add: entryMessage_def orString_def)
  show "extractTextFromAny rt (Some (JArr xs)) =
     stringTrim rt
       (join '' '' (filter (\<lambda>t. t \<noteq> []) (map (\<lambda>item. extractTextFromAny rt (Some item)) xs)))"
    by simp
  show "extractTextFromAny rt (Some (JObj cs)) =
     (case asString (map_of cs ''text'') of
        Some t \<Rightarrow> t
      | None \<Rightarrow>
     (case asString (map_of cs ''message'') of
        Some t \<Rightarrow> t
      | None \<Rightarrow>
     (case asString (map_of cs ''content'') of
        Some t \<Rightarrow> t
      | None \<Rightarrow>
          if truthy (map_of cs ''content'') then extractTextFromAny rt (map_of cs ''content'')
          else if truthy (map_of cs ''message'') then extractTextFromAny rt (map_of cs ''message'')
          else [])))"
    by (rule extractTextFromAny.simps)
  show "extractTextFromAny rt (Some (JStr s)) = s"
    by simp
  show "extractTextFromAny rt (Some (JNum x)) = numberToString rt x"
    by simp
  show "extractTextFromAny rt (Some (JBool b)) = (if b then ''true'' else ''false'')"
    by simp
  show "extractTextFromAny rt (Some JNull) = []"
    by simp
  show "extractTextFromAny rt None = []"
    by simp
  show "formatTranscript rt None = None"
    by (simp add: formatTranscript_def)
  show "formatTranscript rt (Some []) = None"
    by (simp add: formatTranscript_def)
  show "es \<noteq> [] \<longrightarrow> formatTranscript rt (Some es) = Some (join [CHR 0x0A] (map (formatEntry rt) es))"
    by (simp add: formatTranscript_def)
  show "formatEntry rt \<lparr> role = r', message = m', time = Some x \<rparr> =
     ''['' @ toFixed1 rt x @ ''s] '' @
       (if r' = [] then ''SPEAKER'' else stringToUpperCase rt r') @ '': '' @ m'"
    by (simp add: formatEntry_def)
  show "formatEntry rt \<lparr> role = r', message = m', time = None \<rparr> =
     (if r' = [] then ''SPEAKER'' else stringToUpperCase rt r') @ '': '' @ m'"
    by (simp add: formatEntry_def)
  show "p_transcript (refreshPayload rt l d) =
     Some (case entries (extractTranscriptFromArtifact rt (d_artifact d)) of
             None \<Rightarrow> transcript l
           | Some es' \<Rightarrow> Some (join [CHR 0x0A] (map (formatEntry rt) es')))"
    by (simp add: refreshPayload_def Let_def emptyPayload_def formatted_extract split: option.splits)
  show "repo_getCallById cid w = Inr (Some l) \<and> usableId (providerCallId l) = Some pcid \<and>
    getCallResponse pv pcid = Ok d \<and> refreshCallDetails pv rt cid w = (Inr c, w') \<longrightarrow>
      repo_getCallById cid w' = Inr (Some c) \<and>
      transcript c =
        (case entries (extractTranscriptFromArtifact rt (d_artifact d)) of
           None \<Rightarrow> transcript l
         | Some es' \<Rightarrow> Some (join [CHR 0x0A] (map (formatEntry rt) es')))"
  proof
    assume h: "repo_getCallById cid w = Inr (Some l) \<and> usableId (providerCallId l) = Some pcid \<and>
      getCallResponse pv pcid = Ok d \<and> refreshCallDetails pv rt cid w = (Inr c, w')"
    then have loc: "repo_getCallById cid w = Inr (Some l)"
      and pc: "usableId (providerCallId l) = Some pcid"
      and resp: "getCallResponse pv pcid = Ok d"
      and run: "refreshCallDetails pv rt cid w = (Inr c, w')"
      by blast+
    note f = refreshCallDetails_fields [OF loc pc resp run]
    have "transcript c =
        (case entries (extractTranscriptFromArtifact rt (d_artifact d)) of
           None \<Rightarrow> transcript l
         | Some es' \<Rightarrow> Some (join [CHR 0x0A] (map (formatEntry rt) es')))"
      unfolding f(6) by (simp add: formatted_extract split: option.splits)
    with f(1) show "repo_getCallById cid w' = Inr (Some c) \<and>
      transcript c =
        (case entries (extractTranscriptFromArtifact rt (d_artifact d)) of
           None \<Rightarrow> transcript l
         | Some es' \<Rightarrow> Some (join [CHR 0x0A] (map (formatEntry rt) es')))"
      by simp
  qed
qed

theorem transcript_normalisation_witness:
  "normalizeTranscriptEntries exampleRuntime
     (Some (JObj [(''id'', JStr ''t-1''),
                  (''messages'',
                   JArr [JObj [(''role'', JStr ''assistant''), (''message'', JStr ''Hello''),
                               (''time'', JNum 0)],
                         JObj [(''role'', JStr ''system'')],
                         JNum 7,
                         JStr ''fine, thanks''])])) =
     Some [\<lparr> role = ''assistant'', message = ''Hello'', time = Some 0 \<rparr>,
           \<lparr> role = ''speaker'', message = ''fine, thanks'', time = None \<rparr>] \<and>
   entries (extractTranscriptFromArtifact exampleRuntime (d_artifact exampleDetails)) =
     Some [\<lparr> role = ''assistant'', message = ''Hello'', time = Some 0 \<rparr>,
           \<lparr> role = ''speaker'', message = ''fine, thanks'', time = None \<rparr>] \<and>
   toTranscriptEntry exampleRuntime
     (Some (JObj [(''speaker'', JStr ''user''), (''content'', JObj [(''text'', JStr ''ok'')])])) =
     Some \<lparr> role = ''user'', message = ''ok'', time = None \<rparr> \<and>
   toTranscriptEntry exampleRuntime
     (Some (JObj [(''role'', JStr ''user''),
                  (''content'', JArr [JObj [(''type'', JStr ''text''), (''text'', JStr ''a'')],
                                      JNull, JStr ''b ''])])) =
     Some \<lparr> role = ''user'', message = ''a b'', time = None \<rparr> \<and>
   formatTranscript exampleRuntime
     (Some [\<lparr> role = ''assistant'', message = ''Hello'', time = Some 0 \<rparr>,
            \<lparr> role = ''speaker'', message = ''fine, thanks'', time = None \<rparr>]) =
     Some (''[0.0s] ASSISTANT: Hello'' @ [CHR 0x0A] @ ''SPEAKER: fine, thanks'') \<and>
   (\<exists>c w'. refreshCallDetails queuedProvider exampleRuntime ''call-2'' exampleWorld = (Inr c, w') \<and>
      transcript c = Some (''[0.0s] ASSISTANT: Hello'' @ [CHR 0x0A] @ ''SPEAKER: fine, thanks''))"
proof -
  let ?e1 = "\<lparr> role = ''assistant'', message = ''Hello'', time = Some (0::real) \<rparr>"
  let ?e2 = "\<lparr> role = ''speaker'', message = ''fine, thanks'', time = None :: real option \<rparr>"
  let ?hello = "[(''role'', JStr ''assistant''), (''message'', JStr ''Hello''), (''time'', JNum 0)]"
  let ?sys = "[(''role'', JStr ''system'')]"
  let ?msgs = "[JObj ?hello, JObj ?sys, JNum 7, JStr ''fine, thanks'']"
  let ?stored = "[JObj ?hello, JObj ?sys, JStr ''fine, thanks'']"
  let ?wrapper = "[(''id'', JStr ''t-1''), (''messages'', JArr ?msgs)]"
  let ?nested = "[(''speaker'', JStr ''user''), (''content'', JObj [(''text'', JStr ''ok'')])]"
  let ?chunks = "[JObj [(''type'', JStr ''text''), (''text'', JStr ''a'')], JNull, JStr ''b '']"
  let ?parts = "[(''role'', JStr ''user''), (''content'', JArr ?chunks)]"
  have skip5: "\<And>A B C D E R. A \<and> B \<and> C \<and> D \<and> E \<and> R \<Longrightarrow> R"
    by blast
  note skip10 = skip5 [OF skip5]
  note skip15 = skip5 [OF skip10]
  note skip20 = skip10 [OF skip10]
  note skip35 = skip15 [OF skip20]
  note array_payload = conjunct1
  note object_payload = conjunct1 [OF conjunct2]
  note no_payload = conjunct1 [OF conjunct2 [OF conjunct2]]
  note string_payload = conjunct1 [OF conjunct2 [OF skip5]]
  note artifact_fields = conjunct1 [OF conjunct2 [OF conjunct2 [OF conjunct2 [OF skip5]]]]
  note number_entry =
    conjunct1 [OF conjunct2 [OF conjunct2 [OF conjunct2 [OF conjunct2 [OF skip10]]]]]
  note string_entry = conjunct1 [OF conjunct2 [OF skip15]]
  note object_entry = conjunct1 [OF conjunct2 [OF conjunct2 [OF skip15]]]
  note role_field = conjunct1 [OF conjunct2 [OF conjunct2 [OF conjunct2 [OF skip15]]]]
  note speaker_field =
    conjunct1 [OF conjunct2 [OF conjunct2 [OF conjunct2 [OF conjunct2 [OF skip15]]]]]
  note message_field = conjunct1 [OF conjunct2 [OF skip20]]
  note no_string_field =
    conjunct1 [OF conjunct2 [OF conjunct2 [OF conjunct2 [OF conjunct2 [OF skip20]]]]]
  note content_text = conjunct1 [OF skip5 [OF skip20]]
  note formatted_lines = conjunct1 [OF skip35]
  note line_with_time = conjunct1 [OF conjunct2 [OF skip35]]
  note line_without_time = conjunct1 [OF conjunct2 [OF conjunct2 [OF skip35]]]
  note stored_transcript = conjunct2 [OF conjunct2 [OF conjunct2 [OF conjunct2 [OF skip35]]]]
  note hello = transcript_normalisation
    [where rt = exampleRuntime and fs = ?hello and r = "''assistant''" and m = "''Hello''"]
  note sys = transcript_normalisation
    [where rt = exampleRuntime and fs = ?sys and x = 7 and s = "''fine, thanks''"]
  note nested = transcript_normalisation
    [where rt = exampleRuntime and fs = ?nested and r = "''user''" and m = "''ok''"
       and cs = "[(''text'', JStr ''ok'')]"]
  note parts = transcript_normalisation
    [where rt = exampleRuntime and fs = ?parts and r = "''user''"]
  note wrapped = transcript_normalisation
    [where rt = exampleRuntime and fs = ?wrapper and xs = ?stored and s = "''AI: Hello''"
       and es = "[?e1, ?e2]" and r' = "''assistant''" and m' = "''Hello''" and x = 0]
  note anonymous = transcript_normalisation
    [where rt = exampleRuntime and r' = "''speaker''" and m' = "''fine, thanks''"]
  have r1: "entryRole (JObj ?hello) = ''assistant''"
    by (rule hello [THEN role_field, rule_format]) simp
  have m1: "entryMessage exampleRuntime (JObj ?hello) = ''Hello''"
    by (rule hello [THEN message_field, rule_format]) simp
  have c1: "toTranscriptEntry exampleRuntime (Some (JObj ?hello)) = Some ?e1"
    unfolding hello [THEN object_entry] r1 m1 by simp
  have "entryMessage exampleRuntime (JObj ?sys) =
          orString (extractTextFromAny exampleRuntime (map_of ?sys ''message''))
            (orString (extractTextFromAny exampleRuntime (map_of ?sys ''content''))
               (extractTextFromAny exampleRuntime (map_of ?sys ''text'')))"
    by (rule sys [THEN no_string_field, rule_format]) simp
  then have m2: "entryMessage exampleRuntime (JObj ?sys) = []"
    by (simp add: orString_def)
  have c2: "toTranscriptEntry exampleRuntime (Some (JObj ?sys)) = None"
    unfolding sys [THEN object_entry] m2 by simp
  have c3: "toTranscriptEntry exampleRuntime (Some (JNum 7)) = None"
    by (rule sys [THEN number_entry])
  have c4: "toTranscriptEntry exampleRuntime (Some (JStr ''fine, thanks'')) = Some ?e2"
    unfolding sys [THEN string_entry] by simp
  have conv: "List.map_filter (\<lambda>e. toTranscriptEntry exampleRuntime (Some e)) ?msgs = [?e1, ?e2]"
    by (simp add: List.map_filter_def c1 c2 c3 c4)
  have conv': "List.map_filter (\<lambda>e. toTranscriptEntry exampleRuntime (Some e)) ?stored =
                 [?e1, ?e2]"
    by (simp add: List.map_filter_def c1 c2 c4)
  have w1: "normalizeTranscriptEntries exampleRuntime (Some (JObj ?wrapper)) = Some [?e1, ?e2]"
    unfolding wrapped [THEN object_payload]
    by (simp add: conv Let_def del: List.map_filter_simps)
  have plain: "normalizeTranscriptEntries exampleRuntime (Some (JStr ''AI: Hello'')) = None"
    by (rule wrapped [THEN string_payload])
  have none: "normalizeTranscriptEntries exampleRuntime None = None"
    by (rule wrapped [THEN no_payload])
  have array: "normalizeTranscriptEntries exampleRuntime (Some (JArr ?stored)) = Some [?e1, ?e2]"
    unfolding wrapped [THEN array_payload]
    by (simp add: conv' Let_def del: List.map_filter_simps)
  have w2: "entries (extractTranscriptFromArtifact exampleRuntime (d_artifact exampleDetails)) =
     Some [?e1, ?e2]"
    unfolding exampleDetails_def VapiCallDetailsResponse.simps wrapped [THEN artifact_fields]
    by (simp add: plain none array)
  have r3: "entryRole (JObj ?nested) = ''user''"
    by (rule nested [THEN speaker_field, rule_format]) simp
  have m3: "entryMessage exampleRuntime (JObj ?nested) = ''ok''"
    by (rule nested [THEN content_text, rule_format]) simp
  have w3: "toTranscriptEntry exampleRuntime (Some (JObj ?nested)) =
     Some \<lparr> role = ''user'', message = ''ok'', time = None \<rparr>"
    unfolding nested [THEN object_entry] r3 m3 by simp
  have r4: "entryRole (JObj ?parts) = ''user''"
    by (rule parts [THEN role_field, rule_format]) simp
  have "entryMessage exampleRuntime (JObj ?parts) =
          orString (extractTextFromAny exampleRuntime (map_of ?parts ''message''))
            (orString (extractTextFromAny exampleRuntime (map_of ?parts ''content''))
               (extractTextFromAny exampleRuntime (map_of ?parts ''text'')))"
    by (rule parts [THEN no_string_field, rule_format]) simp
  then have m4: "entryMessage exampleRuntime (JObj ?parts) = ''a b''"
    by (simp add: orString_def exampleRuntime_def asciiTrim_def isWhiteSpace_def)
  have w4: "toTranscriptEntry exampleRuntime (Some (JObj ?parts)) =
     Some \<lparr> role = ''user'', message = ''a b'', time = None \<rparr>"
    unfolding parts [THEN object_entry] r4 m4 by simp
  have f1: "formatEntry exampleRuntime ?e1 = ''[0.0s] ASSISTANT: Hello''"
    unfolding wrapped [THEN line_with_time]
    by (simp add: exampleRuntime_def asciiUpperCase_def upperChar_def)
  have f2: "formatEntry exampleRuntime ?e2 = ''SPEAKER: fine, thanks''"
    unfolding anonymous [THEN line_without_time]
    by (simp add: exampleRuntime_def asciiUpperCase_def upperChar_def)
  have lines: "join [CHR 0x0A] (map (formatEntry exampleRuntime) [?e1, ?e2]) =
                 ''[0.0s] ASSISTANT: Hello'' @ [CHR 0x0A] @ ''SPEAKER: fine, thanks''"
    by (simp add: f1 f2)
  have "formatTranscript exampleRuntime (Some [?e1, ?e2]) =
          Some (join [CHR 0x0A] (map (formatEntry exampleRuntime) [?e1, ?e2]))"
    by (rule wrapped [THEN formatted_lines, rule_format]) simp
  then have w5: "formatTranscript exampleRuntime (Some [?e1, ?e2]) =
     Some (''[0.0s] ASSISTANT: Hello'' @ [CHR 0x0A] @ ''SPEAKER: fine, thanks'')"
    unfolding lines .
  from example_refresh obtain c w' where
    run: "refreshCallDetails queuedProvider exampleRuntime ''call-2'' exampleWorld = (Inr c, w')"
    by blast
  have loc: "repo_getCallById ''call-2'' exampleWorld = Inr (Some (mapCall acceptedCallRow))"
    by (simp add: repo_getCallById_def rowsWithId_def example_defs)
  have pc: "usableId (providerCallId (mapCall acceptedCallRow)) = Some ''prov-123''"
    by (simp add: usableId_def mapCall_def example_defs)
  have resp: "getCallResponse queuedProvider ''prov-123'' = Ok exampleDetails"
    by (simp add: example_defs)
  note refreshed = transcript_normalisation
    [where rt = exampleRuntime and cid = "''call-2''" and w = exampleWorld
       and l = "mapCall acceptedCallRow" and pcid = "''prov-123''" and pv = queuedProvider
       and d = exampleDetails and c = c and w' = w']
  from refreshed [THEN stored_transcript] loc pc resp run
  have "transcript c =
        (case entries (extractTranscriptFromArtifact exampleRuntime (d_artifact exampleDetails)) of
           None \<Rightarrow> transcript (mapCall acceptedCallRow)
         | Some es' \<Rightarrow> Some (join [CHR 0x0A] (map (formatEntry exampleRuntime) es')))"
    by blast
  then have w6: "transcript c =
      Some (''[0.0s] ASSISTANT: Hello'' @ [CHR 0x0A] @ ''SPEAKER: fine, thanks'')"
    unfolding w2 lines [symmetric] by simp
  from w1 w2 w3 w4 w5 run w6 show ?thesis
    by blast
qed

subsection \<open>Executing due schedules\<close>

text \<open>What placing a call leaves alone, and what its outcome depends on.\<close>

lemma insertCall_frame:
  assumes "insertCall body w = (res, w')"
  shows "patients w' = patients w \<and> vapi_prompts w' = vapi_prompts w \<and> now w' = now w \<and>
         vapi_call_schedules w' = vapi_call_schedules w"
  using assms by (auto simp: insertCall_def Let_def split: option.splits)

lemma insertCall_isl: "isl (fst (insertCall body w)) = isl (fst (insertCall body v))"
  by (auto simp: insertCall_def Let_def split: option.splits)

lemma repo_createCall_frame:
  assumes "repo_createCall p w = (res, w')"
  shows "patients w' = patients w \<and> vapi_prompts w' = vapi_prompts w \<and> now w' = now w \<and>
         vapi_call_schedules w' = vapi_call_schedules w"
proof (cases "buildCallPayload p")
  case (Inl e)
  with assms show ?thesis
    by (simp add: repo_createCall_def)
next
  case (Inr body)
  obtain r v where ins: "insertCall body w = (r, v)"
    by (cases "insertCall body w")
  from assms Inr ins have "w' = v"
    by (cases r) (simp_all add: repo_createCall_def)
  with insertCall_frame [OF ins] show ?thesis
    by simp
qed

lemma repo_createCall_isl: "isl (fst (repo_createCall p w)) = isl (fst (repo_createCall p v))"
proof (cases "buildCallPayload p")
  case (Inl e)
  then show ?thesis
    by (simp add: repo_createCall_def)
next
  case (Inr body)
  have "\<And>u. isl (fst (repo_createCall p u)) = isl (fst (insertCall body u))"
    using Inr by (simp add: repo_createCall_def split: prod.splits sum.splits)
  then show ?thesis
    using insertCall_isl [of body w v] by simp
qed

lemma createCallTry_frame:
  assumes "createCallTry pv params patient prompt w = (res, w')"
  shows "patients w' = patients w \<and> vapi_prompts w' = vapi_prompts w \<and> now w' = now w \<and>
         vapi_call_schedules w' = vapi_call_schedules w"
  using assms
  by (auto simp: createCallTry_def getAssistant_def Let_def
           split: response.splits option.splits dest!: repo_createCall_frame)

lemma fst_getAssistant: "fst (getAssistant pv w) = fst (getAssistant pv v)"
  by (simp add: getAssistant_def Let_def split: response.splits)

lemma snd_getAssistant: "snd (getAssistant pv w) = w\<lparr> requests := requests w @ [GetAssistant] \<rparr>"
  by (simp add: getAssistant_def Let_def split: response.splits)

lemma createCallTry_isl:
  assumes "now w = now v"
  shows "isl (fst (createCallTry pv params patient prompt w)) =
         isl (fst (createCallTry pv params patient prompt v))"
proof (cases "Option.bind (fst (getAssistant pv w)) as_model")
  case None
  then have "Option.bind (fst (getAssistant pv v)) as_model = None"
    by (simp add: fst_getAssistant [of pv v w])
  with None show ?thesis
    by (simp add: createCallTry_def Let_def split_beta)
next
  case (Some m)
  then have v: "Option.bind (fst (getAssistant pv v)) as_model = Some m"
    by (simp add: fst_getAssistant [of pv v w])
  let ?req = "\<lparr> customerNumber = cp_phoneNumber params,
                modelProvider = stringOr (am_provider m) ''openai'',
                modelName = stringOr (am_model m) ''gpt-4o-mini'',
                systemContent = replacePromptVariables pv (prPrompt prompt) patient \<rparr>"
  have nw: "\<And>u. now (snd (getAssistant pv u)) = now u"
    by (simp add: snd_getAssistant)
  show ?thesis
  proof (cases "postCallResponse pv ?req")
    case (Ok d)
    let ?p = "\<lambda>t. emptyPayload\<lparr> p_patientId := Some (cp_patientId params),
                                  p_promptId := Some (cp_promptId params),
                                  p_phoneNumber := Some (cp_phoneNumber params),
                                  p_providerCallId := Some (Some (resp_id d)),
                                  p_status := Some (mapApiStatusToLocal (Some (resp_status d))),
                                  p_startedAt :=
                                    Some (if mapApiStatusToLocal (Some (resp_status d)) = InProgress
                                          then Some (Date t) else None) \<rparr>"
    have run: "\<And>u. Option.bind (fst (getAssistant pv u)) as_model = Some m \<Longrightarrow>
              createCallTry pv params patient prompt u =
                repo_createCall (?p (now u))
                  ((snd (getAssistant pv u))\<lparr> requests :=
                      requests (snd (getAssistant pv u)) @ [PostCall ?req] \<rparr>)"
      using Ok by (simp add: createCallTry_def Let_def nw split_beta)
    have "isl (fst (repo_createCall (?p (now v))
                  ((snd (getAssistant pv w))\<lparr> requests :=
                      requests (snd (getAssistant pv w)) @ [PostCall ?req] \<rparr>))) =
          isl (fst (repo_createCall (?p (now v))
                  ((snd (getAssistant pv v))\<lparr> requests :=
                      requests (snd (getAssistant pv v)) @ [PostCall ?req] \<rparr>)))"
      by (rule repo_createCall_isl)
    then show ?thesis
      by (simp only: run [OF Some] run [OF v] assms)
  next
    case (NotOk st msg)
    then show ?thesis
      using Some v by (simp add: createCallTry_def Let_def split_beta)
  next
    case (Rejected e)
    then show ?thesis
      using Some v by (simp add: createCallTry_def Let_def split_beta)
  qed
qed

lemma createCall_frame:
  assumes "createCall pv params w = (res, w')"
  shows "patients w' = patients w \<and> vapi_prompts w' = vapi_prompts w \<and> now w' = now w \<and>
         vapi_call_schedules w' = vapi_call_schedules w"
proof (cases "patients w (cp_patientId params)")
  case None
  with assms show ?thesis
    by (simp add: createCall_def)
next
  case (Some patient)
  show ?thesis
  proof (cases "vapi_prompts w (cp_promptId params)")
    case None
    with assms Some show ?thesis
      by (simp add: createCall_def)
  next
    case (Some prompt)
    obtain r v where t: "createCallTry pv params patient prompt w = (r, v)"
      by (cases "createCallTry pv params patient prompt w")
    note f1 = createCallTry_frame [OF t]
    show ?thesis
    proof (cases r)
      case (Inr call)
      with assms \<open>patients w (cp_patientId params) = Some patient\<close> Some t have "w' = v"
        by (simp add: createCall_def)
      with f1 show ?thesis
        by simp
    next
      case (Inl e)
      let ?p = "emptyPayload\<lparr> p_patientId := Some (cp_patientId params),
                                p_promptId := Some (cp_promptId params),
                                p_phoneNumber := Some (cp_phoneNumber params),
                                p_status := Some Failed \<rparr>"
      obtain r2 v2 where c: "repo_createCall ?p v = (r2, v2)"
        by (cases "repo_createCall ?p v")
      from assms \<open>patients w (cp_patientId params) = Some patient\<close> Some t Inl c have "w' = v2"
        by (cases r2) (simp_all add: createCall_def)
      with repo_createCall_frame [OF c] f1 show ?thesis
        by simp
    qed
  qed
qed

lemma createCall_isl:
  assumes "patients w = patients v" and "vapi_prompts w = vapi_prompts v" and "now w = now v"
  shows "isl (fst (createCall pv params w)) = isl (fst (createCall pv params v))"
proof -
  have key: "\<And>u. isl (fst (createCall pv params u)) =
      (case (patients u (cp_patientId params), vapi_prompts u (cp_promptId params)) of
         (Some patient, Some prompt) \<Rightarrow> isl (fst (createCallTry pv params patient prompt u))
       | _ \<Rightarrow> True)"
    by (auto simp: createCall_def split: option.splits prod.splits sum.splits)
  show ?thesis
    unfolding key using assms createCallTry_isl [OF assms(3)]
    by (simp split: option.splits)
qed

lemma initiationSucceeds_frame:
  assumes "patients w = patients v" and "vapi_prompts w = vapi_prompts v" and "now w = now v"
  shows "initiationSucceeds pv w s = initiationSucceeds pv v s"
proof -
  have "\<And>u params. (case fst (createCall pv params u) of Inr call \<Rightarrow> True | Inl e \<Rightarrow> False) =
                     (\<not> isl (fst (createCall pv params u)))"
    by (simp split: sum.splits)
  then show ?thesis
    using assms createCall_isl [OF assms]
    by (simp add: initiationSucceeds_def split: option.splits)
qed

lemma schedulesWithId_map:
  assumes "\<And>row. s_id (g row) = s_id row"
  shows "schedulesWithId sid (map g rows) = map g (schedulesWithId sid rows)"
  by (induction rows) (simp_all add: schedulesWithId_def assms)

lemma schedulesWithId_update:
  assumes "\<And>row. s_id (f row) = s_id row"
  shows "schedulesWithId sid (map (\<lambda>row. if s_id row = sid then f row else row) rows) =
           map f (schedulesWithId sid rows)"
  by (induction rows) (simp_all add: schedulesWithId_def assms)

lemma updateScheduleRows_single:
  assumes "schedulesWithId sid (vapi_call_schedules w) = [r]"
  shows "updateScheduleRows sid f w =
           (Inr (mapSchedule (f r)),
            w\<lparr> vapi_call_schedules :=
                 map (\<lambda>row. if s_id row = sid then f row else row) (vapi_call_schedules w) \<rparr>)"
  using assms by (simp add: updateScheduleRows_def)

lemma updateSchedule_lastExecutedAt:
  "updateSchedule sid
     \<lparr> u_scheduledTime = None, u_recurrenceEndDate = None, u_lastExecutedAt = Some (Date t) \<rparr> w =
   updateScheduleRows sid (\<lambda>row. row\<lparr> s_last_executed_at := Some t \<rparr>) w"
  by (simp add: updateSchedule_def dateColumn_def toISOString_def setColumn_def)

lemma schedulesWithId_distinct:
  assumes "distinct (map s_id rows)" and "r \<in> set rows"
  shows "schedulesWithId (s_id r) rows = [r]"
  using assms
proof (induction rows)
  case Nil
  then show ?case by simp
next
  case (Cons x xs)
  show ?case
  proof (cases "x = r")
    case True
    with Cons.prems have "s_id r \<notin> s_id ` set xs"
      by simp
    have "\<forall>y\<in>set xs. s_id y \<noteq> s_id r"
    proof
      fix y
      assume "y \<in> set xs"
      then have "s_id y \<in> s_id ` set xs"
        by (rule imageI)
      with \<open>s_id r \<notin> s_id ` set xs\<close> show "s_id y \<noteq> s_id r"
        by metis
    qed
    then have "filter (\<lambda>y. s_id y = s_id r) xs = []"
      by (simp add: filter_empty_conv)
    with True show ?thesis
      by (simp add: schedulesWithId_def)
  next
    case False
    with Cons.prems have "r \<in> set xs" and "distinct (map s_id xs)" and "s_id x \<noteq> s_id r"
      by auto
    with Cons.IH show ?thesis
      by (simp add: schedulesWithId_def)
  qed
qed

text \<open>One step of the executor on a one-time schedule that is stored once: it reports
  whether the initiation succeeded, and marks the schedule's row if it did.\<close>

lemma executeSchedule_step:
  assumes single: "schedulesWithId (schedId s) (vapi_call_schedules w) = [r]"
    and ot: "schedType s = OneTime"
  shows "\<exists>w'. executeSchedule pv s w = (initiationSucceeds pv w s, w') \<and>
           patients w' = patients w \<and> vapi_prompts w' = vapi_prompts w \<and> now w' = now w \<and>
           vapi_call_schedules w' =
             map (\<lambda>row. if s_id row = schedId s \<and> initiationSucceeds pv w s
                         then row\<lparr> s_last_executed_at := Some (now w), s_is_active := False \<rparr>
                         else row) (vapi_call_schedules w)"
proof (cases "patients w (schedPatientId s)")
  case None
  then show ?thesis
    by (simp add: executeSchedule_def initiationSucceeds_def)
next
  case (Some patient)
  note pat = this
  show ?thesis
  proof (cases "vapi_prompts w (schedPromptId s)")
    case None
    with pat show ?thesis
      by (simp add: executeSchedule_def initiationSucceeds_def)
  next
    case (Some prompt)
    obtain res w1 where cc: "createCall pv (scheduleCallParams s patient) w = (res, w1)"
      by (cases "createCall pv (scheduleCallParams s patient) w")
    note f = createCall_frame [OF cc]
    show ?thesis
    proof (cases res)
      case (Inl e)
      with pat Some cc f show ?thesis
        by (simp add: executeSchedule_def initiationSucceeds_def)
    next
      case (Inr call)
      have ok: "initiationSucceeds pv w s"
        using pat Some cc Inr by (simp add: initiationSucceeds_def)
      from single f have single1: "schedulesWithId (schedId s) (vapi_call_schedules w1) = [r]"
        by simp
      let ?mark = "\<lambda>row. row\<lparr> s_last_executed_at := Some (now w1) \<rparr>"
      let ?w2 = "w1\<lparr> vapi_call_schedules :=
                      map (\<lambda>row. if s_id row = schedId s then ?mark row else row)
                          (vapi_call_schedules w1) \<rparr>"
      have up: "updateSchedule (schedId s)
                  \<lparr> u_scheduledTime = None, u_recurrenceEndDate = None,
                    u_lastExecutedAt = Some (Date (now w1)) \<rparr> w1 =
                (Inr (mapSchedule (?mark r)), ?w2)"
        by (simp add: updateSchedule_lastExecutedAt updateScheduleRows_single [OF single1])
      have single2: "schedulesWithId (schedId s) (vapi_call_schedules ?w2) = [?mark r]"
        by (simp add: schedulesWithId_update [of ?mark] single1)
      let ?off = "\<lambda>row. row\<lparr> s_is_active := False \<rparr>"
      let ?w3 = "?w2\<lparr> vapi_call_schedules :=
                       map (\<lambda>row. if s_id row = schedId s then ?off row else row)
                           (vapi_call_schedules ?w2) \<rparr>"
      have de: "deactivateSchedule (schedId s) ?w2 = (Inr (mapSchedule (?off (?mark r))), ?w3)"
        unfolding deactivateSchedule_def by (rule updateScheduleRows_single [OF single2])
      have run: "executeSchedule pv s w = (True, ?w3)"
        using pat Some cc Inr ot by (simp add: executeSchedule_def up de)
      have rows: "vapi_call_schedules ?w3 =
             map (\<lambda>row. if s_id row = schedId s
                         then row\<lparr> s_last_executed_at := Some (now w), s_is_active := False \<rparr>
                         else row) (vapi_call_schedules w)"
        using f by (simp add: comp_def if_distrib cong: if_cong)
      show ?thesis
        using run rows ok f by simp
    qed
  qed
qed

text \<open>The whole pass over one-time schedules that are each stored once.\<close>

lemma executeAll_rows:
  assumes "\<forall>s\<in>set ss. schedType s = OneTime \<and>
             (\<exists>r. schedulesWithId (schedId s) (vapi_call_schedules w) = [r])"
  shows "\<exists>res' w'. executeAll pv ss res w = (res', w') \<and>
           patients w' = patients w \<and> vapi_prompts w' = vapi_prompts w \<and> now w' = now w \<and>
           vapi_call_schedules w' =
             map (\<lambda>row. if \<exists>s\<in>set ss. schedId s = s_id row \<and> initiationSucceeds pv w s
                         then row\<lparr> s_last_executed_at := Some (now w), s_is_active := False \<rparr>
                         else row) (vapi_call_schedules w)"
  using assms
proof (induction ss arbitrary: res w)
  case Nil
  then show ?case
    by (simp add: map_idI)
next
  case (Cons s ss)
  from Cons.prems obtain r where
    single: "schedulesWithId (schedId s) (vapi_call_schedules w) = [r]"
    and ot: "schedType s = OneTime"
    by auto
  let ?b = "initiationSucceeds pv w s"
  let ?M = "\<lambda>row. row\<lparr> s_last_executed_at := Some (now w), s_is_active := False \<rparr>"
  let ?g = "\<lambda>row. if s_id row = schedId s \<and> ?b then ?M row else row"
  from executeSchedule_step [OF single ot, of pv] obtain w1 where
    step: "executeSchedule pv s w = (?b, w1)"
    and f: "patients w1 = patients w" "vapi_prompts w1 = vapi_prompts w" "now w1 = now w"
    and rows1: "vapi_call_schedules w1 = map ?g (vapi_call_schedules w)"
    by blast
  have ids: "\<And>row. s_id (?g row) = s_id row"
    by simp
  have pre: "\<forall>s'\<in>set ss. schedType s' = OneTime \<and>
               (\<exists>r'. schedulesWithId (schedId s') (vapi_call_schedules w1) = [r'])"
  proof
    fix s'
    assume "s' \<in> set ss"
    with Cons.prems obtain r' where
      "schedType s' = OneTime" "schedulesWithId (schedId s') (vapi_call_schedules w) = [r']"
      by auto
    then show "schedType s' = OneTime \<and>
               (\<exists>r'. schedulesWithId (schedId s') (vapi_call_schedules w1) = [r'])"
      by (simp add: rows1 schedulesWithId_map [of ?g, OF ids])
  qed
  let ?res1 = "if ?b then res\<lparr> executed := executed res + 1 \<rparr> else res\<lparr> failed := failed res + 1 \<rparr>"
  have unfold: "executeAll pv (s # ss) res w = executeAll pv ss ?res1 w1"
    using step by (cases ?b) simp_all
  have same: "\<And>s'. initiationSucceeds pv w1 s' = initiationSucceeds pv w s'"
    by (rule initiationSucceeds_frame) (simp_all add: f)
  from Cons.IH [OF pre, of ?res1] obtain res' w' where
    run: "executeAll pv ss ?res1 w1 = (res', w')"
    and f': "patients w' = patients w1" "vapi_prompts w' = vapi_prompts w1" "now w' = now w1"
    and rows': "vapi_call_schedules w' =
             map (\<lambda>row. if \<exists>s'\<in>set ss. schedId s' = s_id row \<and> initiationSucceeds pv w1 s'
                         then row\<lparr> s_last_executed_at := Some (now w1), s_is_active := False \<rparr>
                         else row) (vapi_call_schedules w1)"
    by blast
  have "vapi_call_schedules w' =
             map (\<lambda>row. if \<exists>s'\<in>set (s # ss). schedId s' = s_id row \<and> initiationSucceeds pv w s'
                         then ?M row else row) (vapi_call_schedules w)"
    unfolding rows' rows1 by (auto simp: same f)
  with run unfold f f' show ?case
    by simp
qed

lemma listDueSchedules_stored:
  assumes "distinct (map s_id (vapi_call_schedules w))" and "s \<in> set (listDueSchedules w)"
  shows "schedType s = OneTime \<and> (\<exists>r. schedulesWithId (schedId s) (vapi_call_schedules w) = [r])"
proof -
  from assms(2) obtain r where r: "r \<in> set (vapi_call_schedules w)" "dueFilter (now w) r"
    "s = mapSchedule r"
    by (auto simp: listDueSchedules_def)
  from schedulesWithId_distinct [OF assms(1) r(1)] r show ?thesis
    by (auto simp: mapSchedule_def dueFilter_def)
qed

text \<open>
  C3. A pass of the executor (as modelled from the specification) over a table in which
  every schedule is stored under its own id changes exactly the rows of the due schedules
  whose call initiation succeeds: such a row gets \<open>last_executed_at\<close> set to the instant of
  the pass and \<open>is_active\<close> set to false. For a due schedule, which is a one-time one, this
  means: if its initiation succeeds its row is marked in this way, and if it fails its row
  is what it was.
\<close>

theorem executeDueSchedules_marks_one_time:
  assumes ids: "distinct (map s_id (vapi_call_schedules w))"
    and due: "s \<in> set (listDueSchedules w)"
    and run: "executeDueSchedules pv w = (res, w')"
  shows "schedType s = OneTime \<and>
         vapi_call_schedules w' =
           map (\<lambda>row. if \<exists>s'\<in>set (listDueSchedules w).
                            schedId s' = s_id row \<and> initiationSucceeds pv w s'
                       then row\<lparr> s_last_executed_at := Some (now w), s_is_active := False \<rparr>
                       else row) (vapi_call_schedules w) \<and>
         (initiationSucceeds pv w s \<longrightarrow>
            (\<exists>r. schedulesWithId (schedId s) (vapi_call_schedules w') = [r] \<and>
                  s_last_executed_at r = Some (now w) \<and> s_is_active r = False)) \<and>
         (\<not> initiationSucceeds pv w s \<longrightarrow>
            schedulesWithId (schedId s) (vapi_call_schedules w') =
              schedulesWithId (schedId s) (vapi_call_schedules w))"
proof -
  let ?M = "\<lambda>row. row\<lparr> s_last_executed_at := Some (now w), s_is_active := False \<rparr>"
  let ?g = "\<lambda>row. if \<exists>s'\<in>set (listDueSchedules w).
                            schedId s' = s_id row \<and> initiationSucceeds pv w s'
                    then ?M row else row"
  have pre: "\<forall>s\<in>set (listDueSchedules w). schedType s = OneTime \<and>
             (\<exists>r. schedulesWithId (schedId s) (vapi_call_schedules w) = [r])"
    using listDueSchedules_stored [OF ids] by blast
  from executeAll_rows [OF pre, of pv "\<lparr> executed = 0, failed = 0 \<rparr>"] run
  have rows: "vapi_call_schedules w' = map ?g (vapi_call_schedules w)"
    by (simp add: executeDueSchedules_def)
  from listDueSchedules_stored [OF ids due] obtain r where
    ot: "schedType s = OneTime"
    and single: "schedulesWithId (schedId s) (vapi_call_schedules w) = [r]"
    by blast
  have gid: "\<And>row. s_id (?g row) = s_id row"
    by simp
  have after: "schedulesWithId (schedId s) (vapi_call_schedules w') = [?g r]"
    unfolding rows by (simp add: schedulesWithId_map [of ?g, OF gid] single)
  from single have "r \<in> set (schedulesWithId (schedId s) (vapi_call_schedules w))"
    by simp
  then have rid: "s_id r = schedId s"
    by (simp add: schedulesWithId_def)
  have yes: "initiationSucceeds pv w s \<longrightarrow>
            (\<exists>r. schedulesWithId (schedId s) (vapi_call_schedules w') = [r] \<and>
                  s_last_executed_at r = Some (now w) \<and> s_is_active r = False)"
  proof
    assume "initiationSucceeds pv w s"
    with due rid have "?g r = ?M r"
      by auto
    with after show "\<exists>r. schedulesWithId (schedId s) (vapi_call_schedules w') = [r] \<and>
                  s_last_executed_at r = Some (now w) \<and> s_is_active r = False"
      by simp
  qed
  have no: "\<not> initiationSucceeds pv w s \<longrightarrow>
            schedulesWithId (schedId s) (vapi_call_schedules w') =
              schedulesWithId (schedId s) (vapi_call_schedules w)"
  proof
    assume fail: "\<not> initiationSucceeds pv w s"
    have "\<not> (\<exists>s'\<in>set (listDueSchedules w). schedId s' = s_id r \<and> initiationSucceeds pv w s')"
    proof
      assume "\<exists>s'\<in>set (listDueSchedules w). schedId s' = s_id r \<and> initiationSucceeds pv w s'"
      then obtain s' where s': "s' \<in> set (listDueSchedules w)" "schedId s' = schedId s"
        "initiationSucceeds pv w s'"
        using rid by auto
      from s'(1) due obtain a b where ab: "a \<in> set (vapi_call_schedules w)" "s' = mapSchedule a"
        "b \<in> set (vapi_call_schedules w)" "s = mapSchedule b"
        by (auto simp: listDueSchedules_def)
      with s'(2) have "s_id a = s_id b"
        by (simp add: mapSchedule_def)
      with ids ab(1) ab(3) have "a = b"
        by (auto simp: distinct_map dest: inj_onD)
      with ab s'(3) fail show False
        by simp
    qed
    then have "?g r = r"
      by auto
    with after single show "schedulesWithId (schedId s) (vapi_call_schedules w') =
              schedulesWithId (schedId s) (vapi_call_schedules w)"
      by simp
  qed
  from ot rows yes no show ?thesis
    by blast
qed

theorem executeDueSchedules_marks_one_time_witness:
  "(\<exists>res w' r. executeDueSchedules queuedProvider exampleWorld = (res, w') \<and>
      schedulesWithId ''sched-1'' (vapi_call_schedules w') = [r] \<and>
      s_last_executed_at r = Some 1717232700000 \<and> s_is_active r = False) \<and>
   (\<exists>res w'. executeDueSchedules failingProvider exampleWorld = (res, w') \<and>
      schedulesWithId ''sched-1'' (vapi_call_schedules w') = [oneTimeRow])"
proof -
  have ids: "distinct (map s_id (vapi_call_schedules exampleWorld))"
    by (simp add: example_defs)
  have due: "mapSchedule oneTimeRow \<in> set (listDueSchedules exampleWorld)"
    by (simp add: listDueSchedules_def dueFilter_def example_defs)
  have sid: "schedId (mapSchedule oneTimeRow) = ''sched-1''"
    by (simp add: mapSchedule_def example_defs)
  have t: "now exampleWorld = 1717232700000"
    by (simp add: example_defs)
  have before: "schedulesWithId ''sched-1'' (vapi_call_schedules exampleWorld) = [oneTimeRow]"
    by (simp add: schedulesWithId_def example_defs)
  have ok: "initiationSucceeds queuedProvider exampleWorld (mapSchedule oneTimeRow)"
    by (simp add: initiationSucceeds_def scheduleCallParams_def mapSchedule_def createCall_defs
          example_defs formatPhoneToE164_def isDigit_def stringOr_def Let_def)
  have bad: "\<not> initiationSucceeds failingProvider exampleWorld (mapSchedule oneTimeRow)"
    by (simp add: initiationSucceeds_def scheduleCallParams_def mapSchedule_def createCall_defs
          example_defs formatPhoneToE164_def isDigit_def stringOr_def Let_def)
  obtain res w' where run: "executeDueSchedules queuedProvider exampleWorld = (res, w')"
    by (cases "executeDueSchedules queuedProvider exampleWorld")
  from executeDueSchedules_marks_one_time [OF ids due run] ok
  obtain r where "schedulesWithId (schedId (mapSchedule oneTimeRow)) (vapi_call_schedules w') = [r]"
    "s_last_executed_at r = Some (now exampleWorld)" "s_is_active r = False"
    by blast
  with run have first: "\<exists>res w' r. executeDueSchedules queuedProvider exampleWorld = (res, w') \<and>
      schedulesWithId ''sched-1'' (vapi_call_schedules w') = [r] \<and>
      s_last_executed_at r = Some 1717232700000 \<and> s_is_active r = False"
    unfolding sid t by blast
  obtain res2 w2 where run2: "executeDueSchedules failingProvider exampleWorld = (res2, w2)"
    by (cases "executeDueSchedules failingProvider exampleWorld")
  from executeDueSchedules_marks_one_time [OF ids due run2] bad
  have "schedulesWithId (schedId (mapSchedule oneTimeRow)) (vapi_call_schedules w2) =
          schedulesWithId (schedId (mapSchedule oneTimeRow)) (vapi_call_schedules exampleWorld)"
    by blast
  with run2 have second: "\<exists>res w'. executeDueSchedules failingProvider exampleWorld = (res, w') \<and>
      schedulesWithId ''sched-1'' (vapi_call_schedules w') = [oneTimeRow]"
    unfolding sid before by blast
  from first second show ?thesis
    by (rule conjI)
qed

end
